theory Spec2Isabelle
  imports Main
begin

section \<open>Go values as the assertion engine sees them\<close>

text \<open>
  The library receives its operands as \<^verbatim>\<open>interface{}\<close> and inspects them with the
  \<^verbatim>\<open>reflect\<close> package. A value is modelled by its dynamic type and its contents.
  The universe covers the untyped nil, booleans, the signed and unsigned integer kinds,
  strings, slices, arrays and maps over these; floats, pointers, structs, channels,
  functions and named types are outside it. The constructors of \<open>kind\<close> are those of
  \<^verbatim>\<open>reflect.Kind\<close>, prefixed with K.
\<close>

datatype kind = KInvalid | KBool | KInt | KInt8 | KInt16 | KInt32 | KInt64
  | KUint | KUint8 | KUint16 | KUint32 | KUint64 | KUintptr
  | KFloat32 | KFloat64 | KComplex64 | KComplex128
  | KArray | KChan | KFunc | KInterface | KMap | KPtr | KSlice | KString | KStruct
  | KUnsafePointer

datatype gtype = TBasic kind | TSlice gtype | TArray nat gtype | TMap gtype gtype | TInterface

text \<open>
  A slice and a map carry their element (and key) type; \<open>None\<close> is the nil slice or nil
  map. An element of a slice of interfaces is the dynamic value it holds, \<open>VNil\<close> for a
  nil interface. A map is an association list with distinct keys.
\<close>

datatype gvalue =
    VNil
  | VBool bool
  | VInt kind int
  | VUint kind nat
  | VString string
  | VSlice gtype "gvalue list option"
  | VArray gtype "gvalue list"
  | VMap gtype gtype "(gvalue \<times> gvalue) list option"

text \<open>\<^verbatim>\<open>reflect.TypeOf\<close>: the dynamic type, none for the untyped nil.\<close>

fun TypeOf :: "gvalue \<Rightarrow> gtype option" where
  "TypeOf VNil = None"
| "TypeOf (VBool b) = Some (TBasic KBool)"
| "TypeOf (VInt k n) = Some (TBasic k)"
| "TypeOf (VUint k n) = Some (TBasic k)"
| "TypeOf (VString s) = Some (TBasic KString)"
| "TypeOf (VSlice t xs) = Some (TSlice t)"
| "TypeOf (VArray t xs) = Some (TArray (length xs) t)"
| "TypeOf (VMap kt vt m) = Some (TMap kt vt)"

text \<open>\<^verbatim>\<open>reflect.ValueOf(v).Kind()\<close>; the zero Value of the untyped nil has kind Invalid.\<close>

fun Kind_of :: "gvalue \<Rightarrow> kind" where
  "Kind_of VNil = KInvalid"
| "Kind_of (VBool b) = KBool"
| "Kind_of (VInt k n) = k"
| "Kind_of (VUint k n) = k"
| "Kind_of (VString s) = KString"
| "Kind_of (VSlice t xs) = KSlice"
| "Kind_of (VArray t xs) = KArray"
| "Kind_of (VMap kt vt m) = KMap"

text \<open>\<^verbatim>\<open>Kind.String()\<close>, what \<^verbatim>\<open>%s\<close> prints for a kind.\<close>

fun kind_name :: "kind \<Rightarrow> string" where
  "kind_name KInvalid = ''invalid''"
| "kind_name KBool = ''bool''"
| "kind_name KInt = ''int''"
| "kind_name KInt8 = ''int8''"
| "kind_name KInt16 = ''int16''"
| "kind_name KInt32 = ''int32''"
| "kind_name KInt64 = ''int64''"
| "kind_name KUint = ''uint''"
| "kind_name KUint8 = ''uint8''"
| "kind_name KUint16 = ''uint16''"
| "kind_name KUint32 = ''uint32''"
| "kind_name KUint64 = ''uint64''"
| "kind_name KUintptr = ''uintptr''"
| "kind_name KFloat32 = ''float32''"
| "kind_name KFloat64 = ''float64''"
| "kind_name KComplex64 = ''complex64''"
| "kind_name KComplex128 = ''complex128''"
| "kind_name KArray = ''array''"
| "kind_name KChan = ''chan''"
| "kind_name KFunc = ''func''"
| "kind_name KInterface = ''interface''"
| "kind_name KMap = ''map''"
| "kind_name KPtr = ''ptr''"
| "kind_name KSlice = ''slice''"
| "kind_name KString = ''string''"
| "kind_name KStruct = ''struct''"
| "kind_name KUnsafePointer = ''unsafe.Pointer''"

subsection \<open>Formatting\<close>

text \<open>Decimal digits, as \<^verbatim>\<open>%d\<close> and \<^verbatim>\<open>%v\<close> print an integer.\<close>

fun fmt_nat :: "nat \<Rightarrow> string" where
  "fmt_nat n =
     (if n < 10 then [''0123456789'' ! n]
      else fmt_nat (n div 10) @ [''0123456789'' ! (n mod 10)])"

declare fmt_nat.simps [simp del]

definition fmt_int :: "int \<Rightarrow> string" where
  "fmt_int i = (if i < 0 then ''-'' @ fmt_nat (nat (- i)) else fmt_nat (nat i))"

fun join_sp :: "string list \<Rightarrow> string" where
  "join_sp [] = []"
| "join_sp [x] = x"
| "join_sp (x # y # ys) = x @ '' '' @ join_sp (y # ys)"

lemma size_elem_le: "x \<in> set xs \<Longrightarrow> size (x::gvalue) \<le> size_list size xs"
  by (erule size_list_estimation') simp

lemma size_pair_le:
  "(a, b) \<in> set ps \<Longrightarrow>
     size (a::gvalue) \<le> size_list (size_prod size size) ps \<and>
     size (b::gvalue) \<le> size_list (size_prod size size) ps"
  by (rule conjI; erule size_list_estimation'; simp)

text \<open>
  The byte-wise order of Go strings: negative, zero or positive as the first string is
  below, equal to or above the second.
\<close>

fun str_cmp :: "string \<Rightarrow> string \<Rightarrow> int" where
  "str_cmp [] [] = 0"
| "str_cmp [] (y # ys) = - 1"
| "str_cmp (x # xs) [] = 1"
| "str_cmp (x # xs) (y # ys) =
     (if (of_char x :: nat) < of_char y then - 1
      else if (of_char y :: nat) < of_char x then 1
      else str_cmp xs ys)"

text \<open>
  The order in which \<^verbatim>\<open>fmt\<close> prints the keys of a map: false before true, numbers
  by value, strings byte-wise. Keys of other kinds, and keys of different kinds under an
  interface key type, are left in the order of the association list.
\<close>

fun key_less :: "gvalue \<Rightarrow> gvalue \<Rightarrow> bool" where
  "key_less (VBool a) (VBool b) = (a = False \<and> b = True)"
| "key_less (VInt ka a) (VInt kb b) = (a < b)"
| "key_less (VUint ka a) (VUint kb b) = (a < b)"
| "key_less (VString a) (VString b) = (str_cmp a b < 0)"
| "key_less x y = False"

fun insert_entry :: "gvalue \<times> gvalue \<Rightarrow> (gvalue \<times> gvalue) list \<Rightarrow> (gvalue \<times> gvalue) list" where
  "insert_entry e [] = [e]"
| "insert_entry e (x # xs) =
     (if key_less (fst e) (fst x) then e # x # xs else x # insert_entry e xs)"

definition sort_entries :: "(gvalue \<times> gvalue) list \<Rightarrow> (gvalue \<times> gvalue) list" where
  "sort_entries ps = foldr insert_entry ps []"

lemma set_insert_entry: "set (insert_entry e xs) = insert e (set xs)"
  by (induction xs) auto

lemma set_sort_entries: "set (sort_entries ps) = set ps"
  by (induction ps) (auto simp: sort_entries_def set_insert_entry)

text \<open>
  What \<^verbatim>\<open>%v\<close> prints for a value. The entries of a map are printed sorted by key.
\<close>

function (sequential) fmtv :: "gvalue \<Rightarrow> string" where
  "fmtv VNil = ''<nil>''"
| "fmtv (VBool b) = (if b then ''true'' else ''false'')"
| "fmtv (VInt k i) = fmt_int i"
| "fmtv (VUint k n) = fmt_nat n"
| "fmtv (VString s) = s"
| "fmtv (VSlice t None) = ''[]''"
| "fmtv (VSlice t (Some xs)) = ''['' @ join_sp (map fmtv xs) @ '']''"
| "fmtv (VArray t xs) = ''['' @ join_sp (map fmtv xs) @ '']''"
| "fmtv (VMap kt vt None) = ''map[]''"
| "fmtv (VMap kt vt (Some ps)) =
     ''map['' @ join_sp (map (\<lambda>(k, v). fmtv k @ '':'' @ fmtv v) (sort_entries ps)) @ '']''"
  by pat_completeness auto
termination
  by (relation "measure size")
     (auto simp: set_sort_entries dest!: size_elem_le size_pair_le)

subsection \<open>Deep equality and the search functions of the standard library\<close>

text \<open>
  \<^verbatim>\<open>reflect.DeepEqual\<close>: two untyped nils are equal, values of different dynamic types
  never are; slices compare nil-ness, length and elements, maps nil-ness, size and the
  value under every key.
\<close>

function (sequential) DeepEqual :: "gvalue \<Rightarrow> gvalue \<Rightarrow> bool" where
  "DeepEqual VNil y = (y = VNil)"
| "DeepEqual x VNil = False"
| "DeepEqual (VBool a) (VBool b) = (a = b)"
| "DeepEqual (VInt k a) (VInt k' b) = (k = k' \<and> a = b)"
| "DeepEqual (VUint k a) (VUint k' b) = (k = k' \<and> a = b)"
| "DeepEqual (VString a) (VString b) = (a = b)"
| "DeepEqual (VSlice t xs) (VSlice t' ys) =
     (t = t' \<and> (case (xs, ys) of
         (None, None) \<Rightarrow> True
       | (Some as, Some bs) \<Rightarrow> list_all2 DeepEqual as bs
       | _ \<Rightarrow> False))"
| "DeepEqual (VArray t xs) (VArray t' ys) = (t = t' \<and> list_all2 DeepEqual xs ys)"
| "DeepEqual (VMap kt vt m) (VMap kt' vt' m') =
     (kt = kt' \<and> vt = vt' \<and> (case (m, m') of
         (None, None) \<Rightarrow> True
       | (Some ps, Some qs) \<Rightarrow> length ps = length qs \<and>
            list_all (\<lambda>(k, v). case map_of qs k of None \<Rightarrow> False
                                | Some v' \<Rightarrow> DeepEqual v v') ps
       | _ \<Rightarrow> False))"
| "DeepEqual _ _ = False"
  by pat_completeness auto
termination
  by (relation "measure (\<lambda>(x, y). size x + size y)")
     (auto dest!: map_of_SomeD size_elem_le size_pair_le)

text \<open>\<^verbatim>\<open>strings.Contains\<close> and \<^verbatim>\<open>bytes.Contains\<close>: a contiguous occurrence.\<close>

fun has_prefix :: "'a list \<Rightarrow> 'a list \<Rightarrow> bool" where
  "has_prefix s [] = True"
| "has_prefix [] (p # ps) = False"
| "has_prefix (c # cs) (p # ps) = (c = p \<and> has_prefix cs ps)"

fun strings_Contains :: "'a list \<Rightarrow> 'a list \<Rightarrow> bool" where
  "strings_Contains [] sub = has_prefix [] sub"
| "strings_Contains (c # cs) sub = (has_prefix (c # cs) sub \<or> strings_Contains cs sub)"

section \<open>The assertion engine\<close>

text \<open>
  Modelled from the spec: the binary pass/fail signal \<^verbatim>\<open>PostHandler\<close>, whose
  declaration is missing, with its two values \<^verbatim>\<open>SuccessHandler\<close> and
  \<^verbatim>\<open>FailureHandler\<close>. Every terminal method returns one of the two, and
  \<^verbatim>\<open>equal\<close> compares against \<^verbatim>\<open>SuccessHandler\<close>.
\<close>

datatype PostHandler = SuccessHandler | FailureHandler

type_synonym Comparitor = "kind \<Rightarrow> gvalue \<Rightarrow> gvalue \<Rightarrow> bool"

text \<open>
  The kind helpers and the five comparators are functions of the package whose source is
  missing. The engine takes them as a parameter, so what is proved of the engine holds
  for every implementation of them.
\<close>

record helpers =
  IsNil :: "gvalue \<Rightarrow> bool"
  SameKind :: "gvalue \<Rightarrow> gvalue \<Rightarrow> kind \<times> bool"
  IsInt :: "gvalue \<Rightarrow> bool"
  IsUint :: "gvalue \<Rightarrow> bool"
  IsNumeric :: "gvalue \<Rightarrow> bool"
  ToInt64 :: "gvalue \<Rightarrow> gvalue \<Rightarrow> gvalue \<times> gvalue"
  ToUint64 :: "gvalue \<Rightarrow> gvalue \<Rightarrow> gvalue \<times> gvalue"
  GreaterThanComparitor :: Comparitor
  GreaterOrEqualToComparitor :: Comparitor
  LessThanComparitor :: Comparitor
  LessThanOrEqualToComparitor :: Comparitor
  EqualsComparitor :: Comparitor

text \<open>
  \<^verbatim>\<open>Errorf\<close> is the reporting sink: a package variable holding a function of a format
  and its arguments. The state it writes to is the list of messages reported so far, in
  order; a call appends the formatted message.
\<close>

type_synonym sink = "string list"

definition Errorf :: "string \<Rightarrow> sink \<Rightarrow> sink" where
  "Errorf msg s = s @ [msg]"

record ToAssertion =
  actual :: gvalue
  comparitor :: Comparitor
  display :: string
  invert :: bool

record ThanAssertion =
  to :: ToAssertion
  than_display :: string
  than_invert :: bool

record ToExpectation =
  te_invert :: bool
  te_actual :: gvalue
  te_others :: "gvalue list"

definition newToAssertion :: "gvalue \<Rightarrow> Comparitor \<Rightarrow> string \<Rightarrow> ToAssertion" where
  "newToAssertion a c d = \<lparr>actual = a, comparitor = c, display = d, invert = False\<rparr>"

definition newThanAssertion ::
  "gvalue \<Rightarrow> Comparitor \<Rightarrow> string \<Rightarrow> string \<Rightarrow> ThanAssertion" where
  "newThanAssertion a c toDisplay thanDisplay =
     \<lparr>to = newToAssertion a c toDisplay, than_display = thanDisplay, than_invert = False\<rparr>"

definition showError :: "gvalue \<Rightarrow> gvalue \<Rightarrow> bool \<Rightarrow> string \<Rightarrow> sink \<Rightarrow> sink" where
  "showError act expected invt disp s =
     (let inversion = (if invt then ''not '' else '''')
      in Errorf (''expected '' @ fmtv act @ '' '' @ inversion @ disp @ '' '' @ fmtv expected) s)"

text \<open>
  The widening step of \<^verbatim>\<open>To\<close>: the operands and the kind that reach the comparator.
\<close>

definition To_widen ::
  "helpers \<Rightarrow> gvalue \<Rightarrow> gvalue \<Rightarrow> kind \<Rightarrow> gvalue \<times> gvalue \<times> kind" where
  "To_widen h act expected kind =
     (if IsInt h act then
        (let (x, y) = ToInt64 h act expected in (x, y, KInt64))
      else if IsUint h act then
        (let (x, y) = ToUint64 h act expected in (x, y, KUint64))
      else (act, expected, kind))"

definition ToAssertion_To ::
  "helpers \<Rightarrow> ToAssertion \<Rightarrow> gvalue \<Rightarrow> sink \<Rightarrow> PostHandler \<times> sink" where
  "ToAssertion_To h a expected s =
     (let act = actual a;
          (kind, ok) = SameKind h act expected
      in if ok = False then
           (FailureHandler,
            Errorf (''expected '' @ fmtv act @ '' '' @ display a @ '' '' @ fmtv expected
                    @ '' - type mismatch '' @ kind_name (Kind_of act) @ '' != ''
                    @ kind_name (Kind_of expected)) s)
         else
           let (act', expected', kind') = To_widen h act expected kind
           in if comparitor a kind' act' expected' = invert a then
                (FailureHandler, showError act' expected' (invert a) (display a) s)
              else (SuccessHandler, s))"

text \<open>
  \<^verbatim>\<open>Than\<close> writes its own invert flag into the wrapped assertion before it checks its
  operands; the updated wrapper is returned with the result.
\<close>

definition ThanAssertion_Than ::
  "helpers \<Rightarrow> ThanAssertion \<Rightarrow> gvalue \<Rightarrow> sink \<Rightarrow> (PostHandler \<times> sink) \<times> ThanAssertion" where
  "ThanAssertion_Than h a expected s =
     (let act = actual (to a);
          a' = a\<lparr>to := (to a)\<lparr>invert := than_invert a\<rparr>\<rparr>
      in if IsNumeric h act = False then
           ((FailureHandler,
             Errorf (''cannot use '' @ than_display a @ '' for type ''
                     @ kind_name (Kind_of act)) s), a')
         else if IsNumeric h expected = False then
           ((FailureHandler,
             Errorf (''cannot use '' @ than_display a @ '' for type ''
                     @ kind_name (Kind_of expected)) s), a')
         else (ToAssertion_To h (to a') expected s, a'))"

text \<open>
  \<^verbatim>\<open>equal\<close> stores its first operand in the assertion it is given before it delegates
  to \<^verbatim>\<open>To\<close>; the assertion is returned with the result and the sink.
\<close>

definition equal ::
  "helpers \<Rightarrow> ToAssertion \<Rightarrow> gvalue \<Rightarrow> gvalue \<Rightarrow> sink \<Rightarrow> bool \<times> ToAssertion \<times> sink" where
  "equal h assertion a b s =
     (let aIsNil = IsNil h a; bIsNil = IsNil h b
      in if aIsNil \<or> bIsNil then
           (if (aIsNil = bIsNil) = invert assertion then
              (False, assertion, showError a b (invert assertion) (display assertion) s)
            else (True, assertion, s))
         else
           let assertion' = assertion\<lparr>actual := a\<rparr>;
               (r, s') = ToAssertion_To h assertion' b s
           in (r = SuccessHandler, assertion', s'))"

text \<open>
  The loop of \<^verbatim>\<open>Equal\<close> over the secondary values, from index \<open>i\<close> on: every pair is
  compared, the flag only ever goes up.
\<close>

function Equal_loop ::
  "helpers \<Rightarrow> gvalue list \<Rightarrow> gvalue list \<Rightarrow> nat \<Rightarrow> bool \<times> ToAssertion \<times> sink
     \<Rightarrow> bool \<times> ToAssertion \<times> sink" where
  "Equal_loop h e_oth others i (failed, assertion, s) =
     (if i < length others then
        (let (r, assertion', s') = equal h assertion (e_oth ! i) (others ! i) s
         in Equal_loop h e_oth others (i + 1)
              (if r = False then True else failed, assertion', s'))
      else (failed, assertion, s))"
  by pat_completeness auto
termination
  by (relation "measure (\<lambda>(h, e_oth, others, i, st). length others - i)") auto

declare Equal_loop.simps [simp del]

text \<open>The assertion \<^verbatim>\<open>Equal\<close> builds for all its comparisons.\<close>

definition Equal_assertion :: "helpers \<Rightarrow> ToExpectation \<Rightarrow> ToAssertion" where
  "Equal_assertion h e =
     (let disp = (if te_invert e then ''to equal'' else ''to be equal to'')
      in (newToAssertion (te_actual e) (EqualsComparitor h) disp)\<lparr>invert := te_invert e\<rparr>)"

definition ToExpectation_Equal ::
  "helpers \<Rightarrow> ToExpectation \<Rightarrow> gvalue \<Rightarrow> gvalue list \<Rightarrow> sink \<Rightarrow> PostHandler \<times> sink" where
  "ToExpectation_Equal h e expected others s =
     (let assertion = Equal_assertion h e;
          (r, assertion1, s1) = equal h assertion (te_actual e) expected s;
          (failed, assertion2, s2) =
            (if length others \<noteq> length (te_others e) then
               (True, assertion1,
                Errorf (''mismatch number of values and expectations ''
                        @ fmt_nat (length (te_others e) + 1) @ '' != ''
                        @ fmt_nat (length others + 1)) s1)
             else Equal_loop h (te_others e) others 0 (\<not> r, assertion1, s1))
      in if failed then (FailureHandler, s2) else (SuccessHandler, s2))"

subsection \<open>Containment\<close>

text \<open>
  A Go panic is a value of the model; \<open>EndTestErr\<close> is the runner's sentinel
  \<^verbatim>\<open>endTestErr\<close>, \<open>PanicValue\<close> any value a test panics with. \<^verbatim>\<open>reflect.Value.MapIndex\<close> panics when the key is
  not assignable to the key type of the map (the zero Value of an untyped nil never is),
  and the runtime panics when a key held in an interface is of an unhashable type; a
  type assertion without the comma-ok form panics when the dynamic type differs.
\<close>

datatype panic = PanicMapIndex | PanicUnhashable | PanicTypeAssertion | PanicNilDereference
  | PanicCall | OpenFailed | ReadFailed | EndTestErr | PanicValue string

fun assert_string :: "gvalue \<Rightarrow> string option" where
  "assert_string (VString s) = Some s"
| "assert_string _ = None"

fun byte_of :: "gvalue \<Rightarrow> nat" where
  "byte_of (VUint k n) = n"
| "byte_of _ = 0"

text \<open>\<^verbatim>\<open>v.([]byte)\<close> in the comma-ok form: the bytes of a slice of uint8, nil included.\<close>

fun assert_bytes :: "gvalue \<Rightarrow> nat list option" where
  "assert_bytes (VSlice t xs) =
     (if t = TBasic KUint8 then Some (case xs of None \<Rightarrow> [] | Some bs \<Rightarrow> map byte_of bs)
      else None)"
| "assert_bytes _ = None"

text \<open>The elements \<^verbatim>\<open>Index(0)\<close> to \<^verbatim>\<open>Index(Len() - 1)\<close> of a slice or an array.\<close>

fun elements :: "gvalue \<Rightarrow> gvalue list" where
  "elements (VSlice t (Some xs)) = xs"
| "elements (VArray t xs) = xs"
| "elements _ = []"

fun hashable :: "gvalue \<Rightarrow> bool" where
  "hashable (VSlice t xs) = False"
| "hashable (VMap kt vt m) = False"
| "hashable (VArray t xs) = list_all hashable xs"
| "hashable _ = True"

text \<open>
  \<^verbatim>\<open>actualValue.MapIndex(expectedValue).Kind() != reflect.Invalid\<close> on a map with key
  type \<open>kt\<close>: whether the key is present, or the panic.
\<close>

definition MapIndex_valid ::
  "gtype \<Rightarrow> (gvalue \<times> gvalue) list option \<Rightarrow> gvalue \<Rightarrow> panic + bool" where
  "MapIndex_valid kt m key =
     (if TypeOf key = None then Inl PanicMapIndex
      else if kt \<noteq> TInterface \<and> TypeOf key \<noteq> Some kt then Inl PanicMapIndex
      else if hashable key = False then Inl PanicUnhashable
      else case m of
             None \<Rightarrow> Inr False
           | Some ps \<Rightarrow> Inr (map_of ps key \<noteq> None))"

fun map_parts :: "gvalue \<Rightarrow> gtype \<times> (gvalue \<times> gvalue) list option" where
  "map_parts (VMap kt vt m) = (kt, m)"
| "map_parts _ = (TInterface, None)"

definition contains :: "gvalue \<Rightarrow> gvalue \<Rightarrow> panic + bool" where
  "contains act expected =
     (let actualKind = Kind_of act; expectedKind = Kind_of expected
      in if actualKind = KString then
           (if expectedKind = KString then
              (case (assert_string act, assert_string expected) of
                 (Some a, Some b) \<Rightarrow> Inr (strings_Contains a b)
               | _ \<Rightarrow> Inl PanicTypeAssertion)
            else Inr False)
         else if (actualKind = KSlice \<or> actualKind = KArray)
                 \<and> list_ex (\<lambda>x. DeepEqual x expected) (elements act) then Inr True
         else if actualKind = KMap then
           (let (kt, m) = map_parts act in MapIndex_valid kt m expected)
         else
           (case assert_bytes act of
              Some actualBytes \<Rightarrow>
                (case assert_bytes expected of
                   Some expectedBytes \<Rightarrow> Inr (strings_Contains actualBytes expectedBytes)
                 | None \<Rightarrow> Inr False)
            | None \<Rightarrow> Inr False))"

definition ToExpectation_Contain ::
  "ToExpectation \<Rightarrow> gvalue \<Rightarrow> sink \<Rightarrow> panic + (PostHandler \<times> sink)" where
  "ToExpectation_Contain e expected s =
     (case contains (te_actual e) expected of
        Inl p \<Rightarrow> Inl p
      | Inr c \<Rightarrow>
          Inr (if te_invert e = False \<and> c = False then
                 (FailureHandler,
                  Errorf (fmtv (te_actual e) @ '' does not contain '' @ fmtv expected) s)
               else if te_invert e = True \<and> c = True then
                 (FailureHandler,
                  Errorf (fmtv (te_actual e) @ '' contains '' @ fmtv expected) s)
               else (SuccessHandler, s)))"

subsection \<open>The expectation facade\<close>

text \<open>
  An \<^verbatim>\<open>Expectation\<close> holds a pointer to an \<^verbatim>\<open>InvertedExpectation\<close>, which embeds a
  pointer to an \<^verbatim>\<open>Expectation\<close>. The five sub-assertions are allocated by the
  constructor and never nil; the \<^verbatim>\<open>Not\<close> pointer may be nil, which is \<open>None\<close>.
\<close>

datatype Expectation = Expectation
    (e_actual: gvalue) (e_others: "gvalue list")
    (Greater: ThanAssertion) (GreaterOrEqual: ToAssertion)
    (Less: ThanAssertion) (LessOrEqual: ToAssertion)
    (To: ToExpectation) (Not_ptr: "InvertedExpectation option")
and InvertedExpectation = InvertedExpectation (embedded: Expectation)

text \<open>
  \<^verbatim>\<open>expect\<close> and \<^verbatim>\<open>NotExpect\<close> call each other: \<^verbatim>\<open>expect\<close> builds the inverted
  sibling when \<^verbatim>\<open>includeNot\<close> is set, \<^verbatim>\<open>NotExpect\<close> calls \<^verbatim>\<open>expect\<close> with
  \<^verbatim>\<open>includeNot\<close> false and then sets the five invert flags.
\<close>

function expect :: "helpers \<Rightarrow> gvalue \<Rightarrow> gvalue list \<Rightarrow> bool \<Rightarrow> Expectation"
  and NotExpect :: "helpers \<Rightarrow> gvalue \<Rightarrow> gvalue list \<Rightarrow> InvertedExpectation" where
  "expect h act others includeNot =
     Expectation act others
       (newThanAssertion act (GreaterThanComparitor h) ''to be greater than'' ''greater than'')
       (newToAssertion act (GreaterOrEqualToComparitor h) ''to be greater or equal to'')
       (newThanAssertion act (LessThanComparitor h) ''to be less than'' ''less than'')
       (newToAssertion act (LessThanOrEqualToComparitor h) ''to be less or equal to'')
       \<lparr>te_invert = False, te_actual = act, te_others = others\<rparr>
       (if includeNot then Some (NotExpect h act others) else None)"
| "NotExpect h act others =
     (case expect h act others False of
        Expectation a os g ge l le t n \<Rightarrow>
          InvertedExpectation
            (Expectation a os
               (g\<lparr>than_invert := True\<rparr>) (ge\<lparr>invert := True\<rparr>)
               (l\<lparr>than_invert := True\<rparr>) (le\<lparr>invert := True\<rparr>)
               (t\<lparr>te_invert := True\<rparr>) n))"
  by pat_completeness auto
termination
  by (relation "measure (\<lambda>x. case x of Inl (h, a, os, inc) \<Rightarrow> (if inc then 2 else 0)
                                      | Inr y \<Rightarrow> 1)") auto

definition Expect :: "helpers \<Rightarrow> gvalue \<Rightarrow> gvalue list \<Rightarrow> Expectation" where
  "Expect h act others = expect h act others True"

text \<open>
  Selecting a field of the expectation behind a pointer to an inverted expectation, as
  in \<^verbatim>\<open>p.To\<close> or \<^verbatim>\<open>p.Not\<close>: the selection goes through the embedded pointer,
  and through a nil \<open>p\<close> it is a nil pointer dereference, a run-time panic.
\<close>

definition field_of ::
  "(Expectation \<Rightarrow> 'a) \<Rightarrow> InvertedExpectation option \<Rightarrow> panic + 'a" where
  "field_of sel p =
     (case p of None \<Rightarrow> Inl PanicNilDereference | Some ie \<Rightarrow> Inr (sel (embedded ie)))"

section \<open>The kind helpers and comparators the engine is run with\<close>

text \<open>
  Modelled from the spec: the kind families of the type normalizer, whose source is
  missing. Signed integer kinds form one family, unsigned integer kinds another, float
  kinds a third; every other kind is a family of its own.
\<close>

fun kind_family :: "kind \<Rightarrow> kind" where
  "kind_family KInt = KInt64"
| "kind_family KInt8 = KInt64"
| "kind_family KInt16 = KInt64"
| "kind_family KInt32 = KInt64"
| "kind_family KUint = KUint64"
| "kind_family KUint8 = KUint64"
| "kind_family KUint16 = KUint64"
| "kind_family KUint32 = KUint64"
| "kind_family KUintptr = KUint64"
| "kind_family KFloat32 = KFloat64"
| "kind_family k = k"

text \<open>
  Modelled from the spec: \<^verbatim>\<open>IsNil\<close>, whose source is missing. Nil-like are the untyped
  nil, a nil slice and a nil map (nil pointers and interfaces are outside the value
  universe).
\<close>

fun spec_IsNil :: "gvalue \<Rightarrow> bool" where
  "spec_IsNil VNil = True"
| "spec_IsNil (VSlice t None) = True"
| "spec_IsNil (VMap kt vt None) = True"
| "spec_IsNil _ = False"

text \<open>
  Modelled from the spec: \<^verbatim>\<open>SameKind\<close>, whose source is missing. Two values are
  comparable when their kinds are of one family; the kind handed on is that of the
  first operand.
\<close>

definition spec_SameKind :: "gvalue \<Rightarrow> gvalue \<Rightarrow> kind \<times> bool" where
  "spec_SameKind a b =
     (Kind_of a, kind_family (Kind_of a) = kind_family (Kind_of b))"

text \<open>
  Modelled from the spec: \<^verbatim>\<open>IsInt\<close>, whose source is missing: the kind is of the
  signed integer family.
\<close>

definition spec_IsInt :: "gvalue \<Rightarrow> bool" where
  "spec_IsInt a = (kind_family (Kind_of a) = KInt64)"

text \<open>
  Modelled from the spec: \<^verbatim>\<open>IsUint\<close>, whose source is missing: the kind is of the
  unsigned integer family.
\<close>

definition spec_IsUint :: "gvalue \<Rightarrow> bool" where
  "spec_IsUint a = (kind_family (Kind_of a) = KUint64)"

text \<open>
  Modelled from the spec: \<^verbatim>\<open>IsNumeric\<close>, whose source is missing: any integer or
  float kind.
\<close>

definition spec_IsNumeric :: "gvalue \<Rightarrow> bool" where
  "spec_IsNumeric a =
     (kind_family (Kind_of a) = KInt64 \<or> kind_family (Kind_of a) = KUint64
      \<or> kind_family (Kind_of a) = KFloat64)"

text \<open>
  Modelled from the spec: the widening of a signed integer to the canonical 64-bit
  signed kind, the number unchanged (the source of the widening is missing).
\<close>

fun widen_int :: "gvalue \<Rightarrow> gvalue" where
  "widen_int (VInt k n) = VInt KInt64 n"
| "widen_int v = v"

text \<open>
  Modelled from the spec: the widening of an unsigned integer to the canonical 64-bit
  unsigned kind, the number unchanged (the source of the widening is missing).
\<close>

fun widen_uint :: "gvalue \<Rightarrow> gvalue" where
  "widen_uint (VUint k n) = VUint KUint64 n"
| "widen_uint v = v"

text \<open>
  Modelled from the spec: \<^verbatim>\<open>ToInt64\<close>, whose source is missing: both operands
  widened.
\<close>

definition spec_ToInt64 :: "gvalue \<Rightarrow> gvalue \<Rightarrow> gvalue \<times> gvalue" where
  "spec_ToInt64 a b = (widen_int a, widen_int b)"

text \<open>
  Modelled from the spec: \<^verbatim>\<open>ToUint64\<close>, whose source is missing: both operands
  widened.
\<close>

definition spec_ToUint64 :: "gvalue \<Rightarrow> gvalue \<Rightarrow> gvalue \<times> gvalue" where
  "spec_ToUint64 a b = (widen_uint a, widen_uint b)"

text \<open>
  Modelled from the spec: what the four ordering comparators, whose source is missing,
  share. A comparator takes the normalized kind and the two normalized values and tells
  whether its relation holds; an ordering relation holds of two numbers of one family
  by their value, of two strings by their byte-wise order, and of no other values of the
  model.
\<close>

fun spec_order :: "(int \<Rightarrow> int \<Rightarrow> bool) \<Rightarrow> kind \<Rightarrow> gvalue \<Rightarrow> gvalue \<Rightarrow> bool" where
  "spec_order rel k (VInt ka a) (VInt kb b) = rel a b"
| "spec_order rel k (VUint ka a) (VUint kb b) = rel (int a) (int b)"
| "spec_order rel k (VString a) (VString b) = rel (str_cmp a b) 0"
| "spec_order rel k x y = False"

text \<open>Modelled from the spec: \<^verbatim>\<open>GreaterThanComparitor\<close>, whose source is missing.\<close>

definition spec_GreaterThan :: Comparitor where
  "spec_GreaterThan = spec_order (\<lambda>a b. b < a)"

text \<open>Modelled from the spec: \<^verbatim>\<open>GreaterOrEqualToComparitor\<close>, whose source is missing.\<close>

definition spec_GreaterOrEqualTo :: Comparitor where
  "spec_GreaterOrEqualTo = spec_order (\<lambda>a b. b \<le> a)"

text \<open>Modelled from the spec: \<^verbatim>\<open>LessThanComparitor\<close>, whose source is missing.\<close>

definition spec_LessThan :: Comparitor where
  "spec_LessThan = spec_order (\<lambda>a b. a < b)"

text \<open>Modelled from the spec: \<^verbatim>\<open>LessThanOrEqualToComparitor\<close>, whose source is missing.\<close>

definition spec_LessThanOrEqualTo :: Comparitor where
  "spec_LessThanOrEqualTo = spec_order (\<lambda>a b. a \<le> b)"

text \<open>
  Modelled from the spec: \<^verbatim>\<open>EqualsComparitor\<close>, whose source is missing: value
  equality of the normalized values, deep value equality where the kind is not a scalar
  one. On the values of the model both are \<^verbatim>\<open>reflect.DeepEqual\<close>.
\<close>

definition spec_Equals :: Comparitor where
  "spec_Equals k a b = DeepEqual a b"

text \<open>
  Modelled from the spec: the helpers and comparators above, taken together as the
  parameter of the engine.
\<close>

definition spec_helpers :: helpers where
  "spec_helpers =
     \<lparr>IsNil = spec_IsNil, SameKind = spec_SameKind, IsInt = spec_IsInt,
      IsUint = spec_IsUint, IsNumeric = spec_IsNumeric,
      ToInt64 = spec_ToInt64, ToUint64 = spec_ToUint64,
      GreaterThanComparitor = spec_GreaterThan,
      GreaterOrEqualToComparitor = spec_GreaterOrEqualTo,
      LessThanComparitor = spec_LessThan,
      LessThanOrEqualToComparitor = spec_LessThanOrEqualTo,
      EqualsComparitor = spec_Equals\<rparr>"

text \<open>
  What one comparison of \<^verbatim>\<open>Equal\<close> decides and what it reports, on an empty sink.
\<close>

definition pair_passes :: "helpers \<Rightarrow> ToExpectation \<Rightarrow> gvalue \<Rightarrow> gvalue \<Rightarrow> bool" where
  "pair_passes h e a b = fst (equal h (Equal_assertion h e) a b [])"

definition pair_report :: "helpers \<Rightarrow> ToExpectation \<Rightarrow> gvalue \<Rightarrow> gvalue \<Rightarrow> string list" where
  "pair_report h e a b = snd (snd (equal h (Equal_assertion h e) a b []))"

definition mismatch_message :: "nat \<Rightarrow> nat \<Rightarrow> string" where
  "mismatch_message n m =
     ''mismatch number of values and expectations '' @ fmt_nat n @ '' != '' @ fmt_nat m"

section \<open>The suite runner\<close>

subsection \<open>Results and the runner\<close>

text \<open>
  A point in time is a number, 0 the zero time of \<^verbatim>\<open>time.Time\<close>. The location of a
  failure comes from the call stack at the point of failure, which is outside the model:
  a failure is recorded with the location its call site is attributed.
\<close>

record Failure =
  message :: string
  location :: string

record result =
  method_name :: string
  failures :: "Failure list"
  typeName :: string
  start :: nat
  end_time :: nat
  skipMessage :: string
  skip :: bool

text \<open>
  The runner holds pointers to its results, and \<^verbatim>\<open>current\<close> is one of them: the
  results are the store, \<^verbatim>\<open>current\<close> is an index into it, \<open>None\<close> when nil.
\<close>

record Runner =
  results :: "result list"
  current :: "nat option"

definition result_Skip :: "string \<Rightarrow> result \<Rightarrow> result" where
  "result_Skip msg r = r\<lparr>skip := True, skipMessage := msg\<rparr>"

definition result_Passed :: "result \<Rightarrow> bool" where
  "result_Passed r = (skip r \<or> length (failures r) = 0)"

definition result_ErrorMessage :: "string \<Rightarrow> result \<Rightarrow> result" where
  "result_ErrorMessage msg r =
     (let l = length (failures r)
      in if l > 0 then
           r\<lparr>failures := (failures r)[l - 1 := (failures r ! (l - 1))\<lparr>message := msg\<rparr>]\<rparr>
         else r)"

definition Runner_Start :: "string \<Rightarrow> string \<Rightarrow> nat \<Rightarrow> Runner \<Rightarrow> nat \<times> Runner" where
  "Runner_Start name tn now r =
     (let new = \<lparr>method_name = name, failures = [], typeName = tn, start = now, end_time = 0,
                 skipMessage = [], skip = False\<rparr>
      in (length (results r),
          r\<lparr>results := results r @ [new], current := Some (length (results r))\<rparr>))"

text \<open>
  \<^verbatim>\<open>End\<close>, \<^verbatim>\<open>Errorf\<close> read through \<^verbatim>\<open>r.current\<close> unguarded: with no current
  result they dereference nil. \<^verbatim>\<open>Skip\<close> and \<^verbatim>\<open>ErrorMessage\<close> test for nil first.
\<close>

definition Runner_End :: "nat \<Rightarrow> Runner \<Rightarrow> panic + (bool \<times> Runner)" where
  "Runner_End now r =
     (case current r of
        None \<Rightarrow> Inl PanicNilDereference
      | Some i \<Rightarrow>
          (let res = (results r ! i)\<lparr>end_time := now\<rparr>
           in Inr (result_Passed res, r\<lparr>results := (results r)[i := res], current := None\<rparr>)))"

definition Runner_Skip :: "string \<Rightarrow> Runner \<Rightarrow> Runner" where
  "Runner_Skip msg r =
     (case current r of
        None \<Rightarrow> r
      | Some i \<Rightarrow> r\<lparr>results := (results r)[i := result_Skip msg (results r ! i)]\<rparr>)"

definition Runner_Errorf :: "string \<Rightarrow> string \<Rightarrow> Runner \<Rightarrow> panic + Runner" where
  "Runner_Errorf msg loc r =
     (case current r of
        None \<Rightarrow> Inl PanicNilDereference
      | Some i \<Rightarrow>
          (let res = results r ! i;
               failure = \<lparr>message = msg, location = loc\<rparr>
           in Inr (r\<lparr>results := (results r)[i := res\<lparr>failures := failures res @ [failure]\<rparr>]\<rparr>)))"

definition Runner_ErrorMessage :: "string \<Rightarrow> Runner \<Rightarrow> Runner" where
  "Runner_ErrorMessage msg r =
     (case current r of
        None \<Rightarrow> r
      | Some i \<Rightarrow> r\<lparr>results := (results r)[i := result_ErrorMessage msg (results r ! i)]\<rparr>)"

subsection \<open>Reporting\<close>

text \<open>
  The report and summary lines are coloured text with a mark for the verdict. A line is
  modelled by the branch that printed it and the fields its text is formatted from.
\<close>

datatype verdict = VSkipped | VPassed | VFailed

datatype out_line =
    ReportLine verdict string nat nat
  | SkipMessageLine string
  | FailureLine string string
  | AnnounceLine string
  | SummaryHeader
  | SummaryLine verdict string string
  | FailureCount nat
  | BlankLine
  | BombLine string

text \<open>The branch \<^verbatim>\<open>Report\<close> and \<^verbatim>\<open>Summary\<close> take: skipped first, then passed, then failed.\<close>

definition result_verdict :: "result \<Rightarrow> verdict" where
  "result_verdict r =
     (if skip r then VSkipped else if result_Passed r then VPassed else VFailed)"

definition result_Report :: "nat \<Rightarrow> result \<Rightarrow> result \<times> out_line list" where
  "result_Report now r =
     (let r' = (if end_time r = 0 then r\<lparr>end_time := now\<rparr> else r)
      in if skip r' then
           (r', [ReportLine VSkipped (method_name r') (start r') (end_time r'),
                 SkipMessageLine (skipMessage r')])
         else if result_Passed r' then
           (r', [ReportLine VPassed (method_name r') (start r') (end_time r')])
         else
           (r', ReportLine VFailed (method_name r') (start r') (end_time r')
                # map (\<lambda>f. FailureLine (location f) (message f)) (failures r')))"

definition result_Summary :: "result \<Rightarrow> out_line list" where
  "result_Summary r =
     (if skip r then [SummaryLine VSkipped (typeName r) (method_name r)]
      else if result_Passed r then [SummaryLine VPassed (typeName r) (method_name r)]
      else [SummaryLine VFailed (typeName r) (method_name r), FailureCount (length (failures r))])"

subsection \<open>The persisted summary\<close>

text \<open>
  The regular expression \<^verbatim>\<open>(\d+) passed\s*(\d+) failed\<close>, matched at the start of a
  string: the two groups and the rest after the match. Each repetition is followed by a
  character outside its class, so only its longest run can lead to a match.
\<close>

definition is_digit :: "char \<Rightarrow> bool" where
  "is_digit c = (c \<in> set ''0123456789'')"

definition is_space :: "char \<Rightarrow> bool" where
  "is_space c = (c \<in> set [CHR 0x09, CHR 0x0A, CHR 0x0C, CHR 0x0D, CHR '' ''])"

definition match_here :: "string \<Rightarrow> (string \<times> string \<times> string) option" where
  "match_here s =
     (let d1 = takeWhile is_digit s; r1 = dropWhile is_digit s
      in if d1 = [] \<or> has_prefix r1 '' passed'' = False then None
         else
           let r3 = dropWhile is_space (drop 7 r1);
               d2 = takeWhile is_digit r3; r4 = dropWhile is_digit r3
           in if d2 = [] \<or> has_prefix r4 '' failed'' = False then None
              else Some (d1, d2, drop 7 r4))"

text \<open>
  \<^verbatim>\<open>FindAllStringSubmatch(s, n)\<close>: at most \<open>n\<close> matches, leftmost first, each search
  resuming after the previous match.
\<close>

fun FindAllStringSubmatch :: "nat \<Rightarrow> string \<Rightarrow> (string \<times> string) list" where
  "FindAllStringSubmatch 0 s = []"
| "FindAllStringSubmatch (Suc n) [] = []"
| "FindAllStringSubmatch (Suc n) (c # cs) =
     (case match_here (c # cs) of
        Some (g1, g2, rest) \<Rightarrow> (g1, g2) # FindAllStringSubmatch n rest
      | None \<Rightarrow> FindAllStringSubmatch (Suc n) cs)"

text \<open>
  \<^verbatim>\<open>strconv.Atoi\<close> on a run of digits: the number, or an error when it does not fit a
  64-bit int. Sums of ints wrap around.
\<close>

fun digit_value :: "char \<Rightarrow> int" where
  "digit_value c = int (length (takeWhile (\<lambda>d. d \<noteq> c) ''0123456789''))"

definition Atoi :: "string \<Rightarrow> int option" where
  "Atoi ds =
     (let v = foldl (\<lambda>acc c. acc * 10 + digit_value c) 0 ds
      in if v > 2 ^ 63 - 1 then None else Some v)"

definition wrap64 :: "int \<Rightarrow> int" where
  "wrap64 x = (x + 2 ^ 63) mod 2 ^ 64 - 2 ^ 63"

text \<open>
  \<^verbatim>\<open>fmt.Sprintf\<close> with one integer argument: the first \<^verbatim>\<open>%d\<close> of the format is
  replaced by the decimal digits.
\<close>

fun Sprintf_d :: "string \<Rightarrow> int \<Rightarrow> string" where
  "Sprintf_d [] n = []"
| "Sprintf_d [c] n = [c]"
| "Sprintf_d (c # d # cs) n =
     (if c = CHR ''%'' \<and> d = CHR ''d'' then fmt_int n @ cs else c # Sprintf_d (d # cs) n)"

text \<open>
  The file at the summary path: it cannot be opened, or it opens and cannot be read, or
  it opens and reads; a path with no file yet is created empty.
\<close>

datatype summary_file = Unopenable | Unreadable | Readable string

text \<open>
  \<^verbatim>\<open>color.Fprintf\<close> is from another library: it rewrites the colour codes of the
  format and hands the result to \<^verbatim>\<open>fmt.Fprintf\<close>. The rewriting is the parameter
  \<open>colorize\<close>. The file is opened for appending, so after the truncation the writes are
  all there is in it.
\<close>

definition updatePersistedSummary ::
  "(string \<Rightarrow> string) \<Rightarrow> summary_file option \<Rightarrow> int \<Rightarrow> int
     \<Rightarrow> panic + summary_file" where
  "updatePersistedSummary colorize fl passed failed =
     (case (case fl of None \<Rightarrow> Readable [] | Some x \<Rightarrow> x) of
        Unopenable \<Rightarrow> Inl OpenFailed
      | Unreadable \<Rightarrow> Inl ReadFailed
      | Readable content \<Rightarrow>
          (let n = min 128 (length content);
               buffer = take n content @ replicate (128 - n) (CHR 0x00);
               kept = (if n > 0 then [] else content);
               found = (if n > 0 then FindAllStringSubmatch 2 buffer else []);
               (passed', failed') =
                 (if n > 0 \<and> length found = 1 then
                    (case found of
                       (g1, g2) # rest \<Rightarrow>
                         ((case Atoi g1 of Some p \<Rightarrow> wrap64 (passed + p) | None \<Rightarrow> passed),
                          (case Atoi g2 of Some q \<Rightarrow> wrap64 (failed + q) | None \<Rightarrow> failed))
                     | [] \<Rightarrow> (passed, failed))
                  else (passed, failed));
               line1 = Sprintf_d (colorize (CHR 0x0A # ''* @g%d passed'' @ [CHR 0x0A])) passed';
               line2 = (if failed' > 0 then
                          Sprintf_d (colorize (''* @r%d failed'' @ [CHR 0x0A])) passed'
                        else ''* 0 failed'' @ [CHR 0x0A])
           in Inr (Readable (kept @ line1 @ line2))))"

subsection \<open>Running a suite\<close>

text \<open>
  The flags and what the environment provides: \<^verbatim>\<open>-vv\<close>, the compiled \<^verbatim>\<open>-m\<close>
  pattern as its \<^verbatim>\<open>MatchString\<close>, the summary path (empty when unset),
  \<^verbatim>\<open>testing.Verbose()\<close>, and the colour rewriting of the terminal library.
\<close>

record config =
  showStdout :: bool
  pattern :: "(string \<Rightarrow> bool) option"
  summaryPath :: string
  Verbose :: bool
  colorize :: "string \<Rightarrow> string"

text \<open>
  The state a run reads and writes: the package's runner, whether \<^verbatim>\<open>os.Stdout\<close> is
  the real standard output (it is nil otherwise, and what is printed is lost), the lines
  that reached the real standard output, the \<^verbatim>\<open>announced\<close> flag the thunks share,
  whether \<^verbatim>\<open>t.Fail()\<close> was called, the clock, the files, and the state of the code
  under test.
\<close>

record 'u world =
  runner :: Runner
  os_Stdout :: bool
  printed :: "out_line list"
  announced :: bool
  t_failed :: bool
  clock :: nat
  files :: "string \<Rightarrow> summary_file option"
  user :: 'u

text \<open>
  A piece of Go code run for its effect: it returns the state it leaves and the value
  it panicked with, if it did.
\<close>

type_synonym 'u action = "'u world \<Rightarrow> panic option \<times> 'u world"

text \<open>
  A method of the suite by its parameters after the receiver: none, one function
  \<^verbatim>\<open>func()\<close>, one of another type, or more.
\<close>

datatype 'u method_body =
    NoArg "'u action"
  | OneArg "'u action \<Rightarrow> 'u action"
  | OneArgNotFunc
  | ManyArgs nat

record 'u method_info =
  m_name :: string
  m_exported :: bool
  m_body :: "'u method_body"

record 'u suite =
  s_typeName :: string
  s_methods :: "'u method_info list"

fun NumIn :: "'u method_body \<Rightarrow> nat" where
  "NumIn (NoArg b) = 1"
| "NumIn (OneArg b) = 2"
| "NumIn OneArgNotFunc = 2"
| "NumIn (ManyArgs n) = n + 3"

definition print_lines :: "out_line list \<Rightarrow> 'u world \<Rightarrow> 'u world" where
  "print_lines ls w = (if os_Stdout w then w\<lparr>printed := printed w @ ls\<rparr> else w)"

text \<open>\<^verbatim>\<open>res.Report()\<close> on the result the pointer \<open>i\<close> refers to.\<close>

definition Report_at :: "nat \<Rightarrow> 'u world \<Rightarrow> 'u world" where
  "Report_at i w =
     (let (r', ls) = result_Report (clock w) (results (runner w) ! i)
      in print_lines ls (w\<lparr>runner := (runner w)\<lparr>results := (results (runner w))[i := r']\<rparr>\<rparr>))"

text \<open>\<^verbatim>\<open>BeforeEach\<close> appends to the registry of global hooks.\<close>

definition BeforeEach :: "'u action \<Rightarrow> 'u action list \<Rightarrow> 'u action list" where
  "BeforeEach f beforeEach = beforeEach @ [f]"

text \<open>The loop over the registry: the hooks in order, stopping at a panic.\<close>

fun run_hooks :: "'u action list \<Rightarrow> 'u action" where
  "run_hooks [] w = (None, w)"
| "run_hooks (hk # hks) w =
     (case hk w of
        (Some p, w') \<Rightarrow> (Some p, w')
      | (None, w') \<Rightarrow> run_hooks hks w')"

text \<open>\<^verbatim>\<open>method.Func.Call\<close> with the receiver alone.\<close>

fun call_method :: "'u method_body \<Rightarrow> 'u action" where
  "call_method (NoArg b) w = b w"
| "call_method _ w = (Some PanicCall, w)"

text \<open>
  The thunk \<^verbatim>\<open>f\<close> of one test: the test method, then \<^verbatim>\<open>runner.End()\<close>, then the
  report when the test did not pass or the run is verbose.
\<close>

definition test_thunk :: "config \<Rightarrow> string \<Rightarrow> nat \<Rightarrow> 'u method_body \<Rightarrow> 'u action" where
  "test_thunk cfg tn res m w =
     (case call_method m w of
        (Some p, w1) \<Rightarrow> (Some p, w1)
      | (None, w1) \<Rightarrow>
          (case Runner_End (clock w1) (runner w1) of
             Inl p \<Rightarrow> (Some p, w1)
           | Inr (passed, r') \<Rightarrow>
               (let w2 = w1\<lparr>runner := r'\<rparr>
                in if passed = False \<or> Verbose cfg then
                     (let w3 = (if announced w2 = False then
                                  (print_lines [AnnounceLine tn] w2)\<lparr>announced := True\<rparr>
                                else w2)
                      in (None, Report_at res w3))
                   else (None, w2))))"

text \<open>
  \<^verbatim>\<open>each.Func.Call\<close> with the receiver and the thunk when there is a lifecycle hook,
  the thunk itself otherwise.
\<close>

fun call_each :: "'u method_body option \<Rightarrow> 'u action \<Rightarrow> 'u action" where
  "call_each None f w = f w"
| "call_each (Some (OneArg e)) f w = e f w"
| "call_each (Some _) f w = (Some PanicCall, w)"

text \<open>
  \<^verbatim>\<open>MethodByName("Each")\<close>, dropped unless it has exactly one parameter after the
  receiver.
\<close>

definition each_hook :: "'u suite \<Rightarrow> 'u method_body option" where
  "each_hook su =
     (case find (\<lambda>m. m_name m = ''Each'') (s_methods su) of
        None \<Rightarrow> None
      | Some m \<Rightarrow> (if NumIn (m_body m) \<noteq> 2 then None else Some (m_body m)))"

text \<open>
  The loop of \<^verbatim>\<open>Expectify\<close> over the methods. Its state holds the variables
  \<^verbatim>\<open>name\<close> and \<^verbatim>\<open>res\<close>, which the deferred handler reads after a panic.
\<close>

fun Expectify_loop ::
  "config \<Rightarrow> 'u action list \<Rightarrow> string \<Rightarrow> 'u method_body option \<Rightarrow> 'u method_info list
     \<Rightarrow> string \<times> nat option \<times> 'u world \<Rightarrow> panic option \<times> string \<times> nat option \<times> 'u world" where
  "Expectify_loop cfg beforeEach tn each [] st = (None, st)"
| "Expectify_loop cfg beforeEach tn each (m # ms) (name, res, w) =
     (if m_exported m = False then Expectify_loop cfg beforeEach tn each ms (name, res, w)
      else if NumIn (m_body m) \<noteq> 1 then
        Expectify_loop cfg beforeEach tn each ms (m_name m, res, w)
      else if (case pattern cfg of
                 None \<Rightarrow> False
               | Some matches \<Rightarrow> matches (m_name m) = False \<and> matches tn = False) then
        Expectify_loop cfg beforeEach tn each ms (m_name m, res, w)
      else
        (let w1 = w\<lparr>os_Stdout := True\<rparr>;
             (i, r') = Runner_Start (m_name m) tn (clock w1) (runner w1);
             w2 = w1\<lparr>runner := r'\<rparr>;
             f = test_thunk cfg tn i (m_body m)
         in case run_hooks beforeEach w2 of
              (Some p, w3) \<Rightarrow> (Some p, m_name m, Some i, w3)
            | (None, w3) \<Rightarrow>
                (case call_each each f w3 of
                   (Some p, w4) \<Rightarrow> (Some p, m_name m, Some i, w4)
                 | (None, w4) \<Rightarrow>
                     Expectify_loop cfg beforeEach tn each ms
                       (m_name m, Some i, w4\<lparr>os_Stdout := showStdout cfg\<rparr>))))"

definition finish :: "config \<Rightarrow> 'u action" where
  "finish cfg w =
     (let passed = length (filter result_Passed (results (runner w)));
          failed = length (results (runner w)) - passed;
          w1 = (if failed \<noteq> 0 then
                  (let wa = print_lines
                              (SummaryHeader
                               # concat (map result_Summary
                                    (filter (\<lambda>r. result_Passed r = False) (results (runner w))))
                               @ [BlankLine])
                              (w\<lparr>os_Stdout := True\<rparr>)
                   in wa\<lparr>os_Stdout := showStdout cfg, t_failed := True\<rparr>)
                else w)
      in if length (summaryPath cfg) \<noteq> 0 then
           (case updatePersistedSummary (colorize cfg) (files w1 (summaryPath cfg))
                   (int passed) (int failed) of
              Inl p \<Rightarrow> (Some p, w1)
            | Inr fl \<Rightarrow> (None, w1\<lparr>files := (files w1)(summaryPath cfg := Some fl)\<rparr>))
         else (None, w1))"

text \<open>
  \<^verbatim>\<open>Expectify\<close> with its deferred handler: the sentinel ends the run with the
  summary; any other panic, one out of \<^verbatim>\<open>finish\<close> included, restores the standard
  output, reports the last result, names the test and is raised again.
\<close>

definition Expectify :: "config \<Rightarrow> 'u action list \<Rightarrow> 'u suite \<Rightarrow> 'u action" where
  "Expectify cfg beforeEach su w =
     (let w0 = w\<lparr>runner := \<lparr>results = [], current = None\<rparr>, announced := False\<rparr>;
          (p, name, res, w1) =
            (case Expectify_loop cfg beforeEach (s_typeName su) (each_hook su) (s_methods su)
                    ([], None, w0) of
               (Some p, st) \<Rightarrow> (Some p, st)
             | (None, name, res, w') \<Rightarrow>
                 (case finish cfg w' of (q, w'') \<Rightarrow> (q, name, res, w'')))
      in case p of
           None \<Rightarrow> (None, w1)
         | Some err \<Rightarrow>
             (if err = EndTestErr then finish cfg w1
              else
                (let w2 = w1\<lparr>os_Stdout := True\<rparr>;
                     w3 = (case res of None \<Rightarrow> w2 | Some i \<Rightarrow> Report_at i w2)
                 in (Some err, print_lines [BombLine name] w3))))"

text \<open>
  The calls a test body makes on the runner through the package: a reported failure with
  its location, a skip, a rewording of the last failure.
\<close>

datatype runner_call = CallErrorf string string | CallSkip string | CallErrorMessage string

fun run_call :: "runner_call \<Rightarrow> Runner \<Rightarrow> panic option \<times> Runner" where
  "run_call (CallErrorf msg loc) r =
     (case Runner_Errorf msg loc r of Inl p \<Rightarrow> (Some p, r) | Inr r' \<Rightarrow> (None, r'))"
| "run_call (CallSkip msg) r = (None, Runner_Skip msg r)"
| "run_call (CallErrorMessage msg) r = (None, Runner_ErrorMessage msg r)"

fun run_calls :: "runner_call list \<Rightarrow> Runner \<Rightarrow> panic option \<times> Runner" where
  "run_calls [] r = (None, r)"
| "run_calls (c # cs) r =
     (case run_call c r of
        (Some p, r') \<Rightarrow> (Some p, r')
      | (None, r') \<Rightarrow> run_calls cs r')"

text \<open>A test method that makes these calls and nothing else.\<close>

definition calls_body :: "runner_call list \<Rightarrow> 'u action" where
  "calls_body cs w = (case run_calls cs (runner w) of (p, r') \<Rightarrow> (p, w\<lparr>runner := r'\<rparr>))"

fun is_skip :: "runner_call \<Rightarrow> bool" where
  "is_skip (CallSkip msg) = True"
| "is_skip _ = False"

subsection \<open>A suite that logs\<close>

text \<open>
  Test code whose only effect is to add a line to a log, and a lifecycle hook
  \<^verbatim>\<open>Each\<close> that logs, invokes the thunk it is given, and logs again. They make the order
  of a run visible.
\<close>

definition log_action :: "string \<Rightarrow> string list action" where
  "log_action x w = (None, w\<lparr>user := user w @ [x]\<rparr>)"

definition logging_Each :: "string list action \<Rightarrow> string list action" where
  "logging_Each f w =
     (case log_action ''Each begins'' w of
        (p1, w1) \<Rightarrow>
          (case f w1 of
             (Some p, w2) \<Rightarrow> (Some p, w2)
           | (None, w2) \<Rightarrow> log_action ''Each ends'' w2))"

definition idle_Each :: "string list action \<Rightarrow> string list action" where
  "idle_Each f w = log_action ''Each does nothing'' w"

definition quiet :: config where
  "quiet = \<lparr>showStdout = False, pattern = None, summaryPath = [], Verbose = False,
            colorize = id\<rparr>"

definition fresh_world :: "string list world" where
  "fresh_world =
     \<lparr>runner = \<lparr>results = [], current = None\<rparr>, os_Stdout = False, printed = [],
      announced = False, t_failed = False, clock = 1, files = (\<lambda>p. None), user = []\<rparr>"

definition logging_suite :: "(string list action \<Rightarrow> string list action) \<Rightarrow> string list suite" where
  "logging_suite each =
     \<lparr>s_typeName = ''*CalculatorTests'',
      s_methods =
        [\<lparr>m_name = ''AddsTwoNumbers'', m_exported = True,
          m_body = NoArg (log_action ''test method'')\<rparr>,
         \<lparr>m_name = ''Each'', m_exported = True, m_body = OneArg each\<rparr>]\<rparr>"

definition two_hooks :: "string list action list" where
  "two_hooks = BeforeEach (log_action ''hook 2'') (BeforeEach (log_action ''hook 1'') [])"

text \<open>A suite with one test, which records a failure and then skips.\<close>

definition skipping_suite :: "string list suite" where
  "skipping_suite =
     \<lparr>s_typeName = ''*CalculatorTests'',
      s_methods =
        [\<lparr>m_name = ''Divides'', m_exported = True,
          m_body = NoArg (calls_body
                     [CallErrorf ''expected 1 to be equal to 2'' ''calculator_test.go:20'',
                      CallSkip ''not ready''])\<rparr>]\<rparr>"

text \<open>
  A run that ended with two passed tests and one failed test, its summary path set and
  the summary file holding the totals of an earlier run.
\<close>

definition summary_config :: config where
  "summary_config = quiet\<lparr>summaryPath := ''summary.txt''\<rparr>"

definition ended_result :: "string \<Rightarrow> Failure list \<Rightarrow> result" where
  "ended_result name fs =
     \<lparr>method_name = name, failures = fs, typeName = ''*CalculatorTests'', start = 1,
      end_time = 2, skipMessage = [], skip = False\<rparr>"

definition ended_world :: "string list world" where
  "ended_world =
     fresh_world
       \<lparr>runner :=
          \<lparr>results =
             [ended_result ''Adds'' [], ended_result ''Subtracts'' [],
              ended_result ''Divides''
                [\<lparr>message = ''expected 1 to be equal to 2'',
                  location = ''calculator_test.go:20''\<rparr>]],
           current = None\<rparr>,
        files := (\<lambda>p. None)(''summary.txt'' := Some (Readable ''3 passed\<newline>0 failed''))\<rparr>"


section \<open>Properties of the assertion engine\<close>

lemma spec_helpers_sel:
  "IsNil spec_helpers = spec_IsNil" "SameKind spec_helpers = spec_SameKind"
  "IsInt spec_helpers = spec_IsInt" "IsUint spec_helpers = spec_IsUint"
  "IsNumeric spec_helpers = spec_IsNumeric" "ToInt64 spec_helpers = spec_ToInt64"
  "ToUint64 spec_helpers = spec_ToUint64" "EqualsComparitor spec_helpers = spec_Equals"
  by (simp_all add: spec_helpers_def)

lemmas engine_defs =
  ToExpectation_Equal_def Equal_assertion_def equal_def newToAssertion_def
  ToAssertion_To_def To_widen_def showError_def Errorf_def Equal_loop.simps

lemmas spec_helper_defs =
  spec_helpers_sel spec_SameKind_def spec_IsInt_def spec_IsUint_def spec_ToInt64_def
  spec_ToUint64_def spec_Equals_def fmt_int_def fmt_nat.simps

subsection \<open>The directional check\<close>

text \<open>
  C1, as the code has it. For operands that \<^verbatim>\<open>SameKind\<close> accepts, \<^verbatim>\<open>To\<close> hands the
  widened operands to the comparator. When the comparator's result equals the invert
  flag (the relation does not hold and the check is not inverted, or it holds and the
  check is inverted), one failure is reported, made of the widened actual value, the
  relation label prefixed with "not " when inverted, and the widened expected value,
  and the fail signal is returned. Otherwise nothing is reported and the pass signal is
  returned.
\<close>

theorem To_fails_when_comparator_equals_invert:
  assumes "SameKind h (actual a) expected = (k, True)"
    and "To_widen h (actual a) expected k = (x, y, k')"
  shows "ToAssertion_To h a expected s =
     (if comparitor a k' x y = invert a
      then (FailureHandler,
            s @ [''expected '' @ fmtv x @ '' '' @ (if invert a then ''not '' else [])
                 @ display a @ '' '' @ fmtv y])
      else (SuccessHandler, s))"
  using assms by (simp add: ToAssertion_To_def showError_def Errorf_def)

theorem To_fails_when_comparator_equals_invert_witness:
  "SameKind spec_helpers
     (actual (newToAssertion (VInt KInt8 5) spec_Equals ''to be equal to''))
     (VInt KInt32 6) = (KInt8, True)
   \<and> To_widen spec_helpers
       (actual (newToAssertion (VInt KInt8 5) spec_Equals ''to be equal to''))
       (VInt KInt32 6) KInt8 = (VInt KInt64 5, VInt KInt64 6, KInt64)
   \<and> ToAssertion_To spec_helpers
       (newToAssertion (VInt KInt8 5) spec_Equals ''to be equal to'') (VInt KInt32 6) []
     = (FailureHandler, [''expected 5 to be equal to 6''])"
  using To_fails_when_comparator_equals_invert
    [of spec_helpers "newToAssertion (VInt KInt8 5) spec_Equals ''to be equal to''"
        "VInt KInt32 6" KInt8 "VInt KInt64 5" "VInt KInt64 6" KInt64 "[]"]
  by (simp add: newToAssertion_def To_widen_def spec_helper_defs)

text \<open>
  The claim as it is written fails: with the invert flag unset and a comparator that
  answers true, "result XOR invert" is true, yet \<^verbatim>\<open>To\<close> reports nothing and returns
  the pass signal.
\<close>

theorem To_xor_counterexample:
  "SameKind spec_helpers (VInt KInt 5) (VInt KInt 5) = (KInt, True)
   \<and> To_widen spec_helpers (VInt KInt 5) (VInt KInt 5) KInt
       = (VInt KInt64 5, VInt KInt64 5, KInt64)
   \<and> (spec_Equals KInt64 (VInt KInt64 5) (VInt KInt64 5)
        \<noteq> invert (newToAssertion (VInt KInt 5) spec_Equals ''to be equal to'')) = True
   \<and> ToAssertion_To spec_helpers
        (newToAssertion (VInt KInt 5) spec_Equals ''to be equal to'') (VInt KInt 5) []
      = (SuccessHandler, [])"
  by (simp add: newToAssertion_def ToAssertion_To_def To_widen_def spec_helper_defs)

subsection \<open>Equality\<close>

text \<open>
  C2. \<^verbatim>\<open>Expect(5).To.Equal(5)\<close> returns the pass signal and reports nothing;
  \<^verbatim>\<open>Expect(5).Not.To.Equal(5)\<close> returns the fail signal;
  \<^verbatim>\<open>Expect(5).To.Equal(6)\<close> returns the fail signal and reports one failure, whose
  message contains "5" and "6".
\<close>

theorem Expect_5_Equal:
  "ToExpectation_Equal spec_helpers (To (Expect spec_helpers (VInt KInt 5) []))
      (VInt KInt 5) [] [] = (SuccessHandler, [])
   \<and> map_option (\<lambda>n. ToExpectation_Equal spec_helpers (To (embedded n)) (VInt KInt 5) [] [])
        (Not_ptr (Expect spec_helpers (VInt KInt 5) []))
      = Some (FailureHandler, [''expected 5 not to equal 5''])
   \<and> ToExpectation_Equal spec_helpers (To (Expect spec_helpers (VInt KInt 5) []))
        (VInt KInt 6) [] [] = (FailureHandler, [''expected 5 to be equal to 6''])
   \<and> strings_Contains ''expected 5 to be equal to 6'' ''5''
   \<and> strings_Contains ''expected 5 to be equal to 6'' ''6''"
  by (simp add: Expect_def engine_defs spec_helper_defs)


lemma To_sink:
  "ToAssertion_To h a e s = (fst (ToAssertion_To h a e []), s @ snd (ToAssertion_To h a e []))"
  by (simp add: ToAssertion_To_def showError_def Errorf_def Let_def split: prod.splits)

lemma To_report_length:
  "length (snd (ToAssertion_To h a e [])) =
     (if fst (ToAssertion_To h a e []) = SuccessHandler then 0 else 1)"
  by (simp add: ToAssertion_To_def showError_def Errorf_def Let_def split: prod.splits)

lemma To_report_prefix:
  "list_all (\<lambda>m. has_prefix m ''expected '') (snd (ToAssertion_To h a e []))"
  by (simp add: ToAssertion_To_def showError_def Errorf_def Let_def split: prod.splits)

lemma equal_sink:
  "equal h asrt a b s =
     (fst (equal h asrt a b []), fst (snd (equal h asrt a b [])),
      s @ snd (snd (equal h asrt a b [])))"
  unfolding equal_def Let_def
  using To_sink[of h "asrt\<lparr>actual := a\<rparr>" b s]
  by (auto simp: showError_def Errorf_def split: prod.splits)

lemma equal_report_length:
  "length (snd (snd (equal h asrt a b []))) = (if fst (equal h asrt a b []) then 0 else 1)"
  unfolding equal_def Let_def
  using To_report_length[of h "asrt\<lparr>actual := a\<rparr>" b]
  by (auto simp: showError_def Errorf_def split: prod.splits)

lemma equal_report_prefix:
  "list_all (\<lambda>m. has_prefix m ''expected '') (snd (snd (equal h asrt a b [])))"
  unfolding equal_def Let_def
  using To_report_prefix[of h "asrt\<lparr>actual := a\<rparr>" b]
  by (auto simp: showError_def Errorf_def split: prod.splits)

lemma equal_actual:
  "fst (equal h (asrt\<lparr>actual := v\<rparr>) a b s) = fst (equal h asrt a b s)"
  "snd (snd (equal h (asrt\<lparr>actual := v\<rparr>) a b s)) = snd (snd (equal h asrt a b s))"
  "(fst (snd (equal h asrt a b s)))\<lparr>actual := w\<rparr> = asrt\<lparr>actual := w\<rparr>"
  by (auto simp: equal_def Let_def split: prod.splits)

lemma equal_same_but_actual:
  assumes "asrt'\<lparr>actual := w\<rparr> = asrt\<lparr>actual := w\<rparr>"
  shows "fst (equal h asrt' a b s) = fst (equal h asrt a b s)"
    and "snd (snd (equal h asrt' a b s)) = snd (snd (equal h asrt a b s))"
proof -
  have "fst (equal h asrt' a b s) = fst (equal h (asrt'\<lparr>actual := w\<rparr>) a b s)"
    by (simp only: equal_actual)
  also have "\<dots> = fst (equal h asrt a b s)"
    by (simp only: assms equal_actual)
  finally show "fst (equal h asrt' a b s) = fst (equal h asrt a b s)" .
  have "snd (snd (equal h asrt' a b s)) = snd (snd (equal h (asrt'\<lparr>actual := w\<rparr>) a b s))"
    by (simp only: equal_actual)
  also have "\<dots> = snd (snd (equal h asrt a b s))"
    by (simp only: assms equal_actual)
  finally show "snd (snd (equal h asrt' a b s)) = snd (snd (equal h asrt a b s))" .
qed

text \<open>
  The loop from index \<open>i\<close> on: the flag is raised exactly when some remaining pair
  fails, and the sink grows by the reports of all remaining pairs, in order.
\<close>

lemma Equal_loop_result:
  assumes "length eo = length os"
  shows "asrt'\<lparr>actual := w\<rparr> = asrt\<lparr>actual := w\<rparr> \<Longrightarrow>
     Equal_loop h eo os i (f, asrt', s) = (f', asrt'', s'') \<Longrightarrow>
       f' = (f \<or> \<not> list_all (\<lambda>(a, b). fst (equal h asrt a b [])) (drop i (zip eo os)))
     \<and> s'' = s @ concat (map (\<lambda>(a, b). snd (snd (equal h asrt a b []))) (drop i (zip eo os)))"
  using assms
proof (induction h eo os i "(f, asrt', s)" arbitrary: f asrt' s rule: Equal_loop.induct)
  case (1 h eo os i f asrt' s)
  show ?case
  proof (cases "i < length os")
    case False
    with "1.prems" show ?thesis by (simp add: Equal_loop.simps)
  next
    case True
    obtain r a1 s1 where eq: "equal h asrt' (eo ! i) (os ! i) s = (r, a1, s1)"
      by (cases "equal h asrt' (eo ! i) (os ! i) s") auto
    have r: "r = fst (equal h asrt (eo ! i) (os ! i) [])"
      using eq equal_sink[of h asrt' "eo ! i" "os ! i" s]
        equal_same_but_actual(1)[OF "1.prems"(1), of h "eo ! i" "os ! i" "[]"] by simp
    have s1: "s1 = s @ snd (snd (equal h asrt (eo ! i) (os ! i) []))"
      using eq equal_sink[of h asrt' "eo ! i" "os ! i" s]
        equal_same_but_actual(2)[OF "1.prems"(1), of h "eo ! i" "os ! i" "[]"] by simp
    have a1: "a1\<lparr>actual := w\<rparr> = asrt\<lparr>actual := w\<rparr>"
      using eq "1.prems"(1)
        equal_actual(3)[where h = h and asrt = asrt' and a = "eo ! i" and b = "os ! i"
          and s = s and w = w]
      by simp
    have step: "Equal_loop h eo os (i + 1) (if r = False then True else f, a1, s1)
                  = (f', asrt'', s'')"
      using "1.prems"(2) True eq by (simp add: Equal_loop.simps[of h eo os i])
    have dr: "drop i (zip eo os) = (eo ! i, os ! i) # drop (i + 1) (zip eo os)"
      using True "1.prems"(3) by (simp add: Cons_nth_drop_Suc[symmetric])
    from "1.hyps"[OF True eq[symmetric] refl refl a1 step "1.prems"(3)]
    show ?thesis using r s1 dr by auto
  qed
qed

lemma Equal_counts_differ:
  assumes "length others \<noteq> length (te_others e)"
  shows "ToExpectation_Equal h e expected others s =
     (FailureHandler,
      s @ pair_report h e (te_actual e) expected
        @ [mismatch_message (length (te_others e) + 1) (length others + 1)])"
proof -
  obtain r a1 s1 where eq: "equal h (Equal_assertion h e) (te_actual e) expected s = (r, a1, s1)"
    by (cases "equal h (Equal_assertion h e) (te_actual e) expected s") auto
  have "s1 = s @ pair_report h e (te_actual e) expected"
    using eq equal_sink[of h "Equal_assertion h e" "te_actual e" expected s]
    by (simp add: pair_report_def)
  then show ?thesis
    using assms eq by (simp add: ToExpectation_Equal_def Errorf_def mismatch_message_def)
qed

lemma Equal_counts_match:
  assumes "length others = length (te_others e)"
  shows "ToExpectation_Equal h e expected others s =
     (if list_all (\<lambda>(a, b). pair_passes h e a b)
           (zip (te_actual e # te_others e) (expected # others))
      then SuccessHandler else FailureHandler,
      s @ concat (map (\<lambda>(a, b). pair_report h e a b)
                   (zip (te_actual e # te_others e) (expected # others))))"
proof -
  obtain r a1 s1 where eq: "equal h (Equal_assertion h e) (te_actual e) expected s = (r, a1, s1)"
    by (cases "equal h (Equal_assertion h e) (te_actual e) expected s") auto
  have r: "r = pair_passes h e (te_actual e) expected"
    and s1: "s1 = s @ pair_report h e (te_actual e) expected"
    using eq equal_sink[of h "Equal_assertion h e" "te_actual e" expected s]
    by (simp_all add: pair_report_def pair_passes_def)
  have a1: "a1\<lparr>actual := VNil\<rparr> = (Equal_assertion h e)\<lparr>actual := VNil\<rparr>"
    using eq equal_actual(3)[where h = h and asrt = "Equal_assertion h e"
        and a = "te_actual e" and b = expected and s = s and w = VNil]
    by simp
  obtain f' a2 s2 where lp: "Equal_loop h (te_others e) others 0 (\<not> r, a1, s1) = (f', a2, s2)"
    by (cases "Equal_loop h (te_others e) others 0 (\<not> r, a1, s1)") auto
  have res: "f' = (\<not> r \<or> \<not> list_all (\<lambda>(a, b). pair_passes h e a b) (zip (te_others e) others))"
    "s2 = s1 @ concat (map (\<lambda>(a, b). pair_report h e a b) (zip (te_others e) others))"
    using Equal_loop_result[OF assms[symmetric] a1 lp]
    by (simp_all add: pair_passes_def[abs_def] pair_report_def[abs_def])
  show ?thesis
    using assms eq lp res r s1 by (simp add: ToExpectation_Equal_def)
qed

text \<open>
  C4. When at least one operand of \<^verbatim>\<open>equal\<close> is nil-like, the result is decided by
  the two nil tests and the invert flag alone: the comparison passes exactly when
  "both nil-like or both not" differs from the invert flag, and a failure is reported
  otherwise. The comparator plays no part: replacing it changes neither the result nor
  the reports. The same holds of \<^verbatim>\<open>Equal\<close> called on that pair alone.
\<close>

theorem equal_nil_like:
  assumes "IsNil h a \<or> IsNil h b"
  shows "equal h assertion a b s =
           (if (IsNil h a = IsNil h b) \<noteq> invert assertion then (True, assertion, s)
            else (False, assertion,
                  showError a b (invert assertion) (display assertion) s))
       \<and> fst (equal h (assertion\<lparr>comparitor := c\<rparr>) a b s) = fst (equal h assertion a b s)
       \<and> snd (snd (equal h (assertion\<lparr>comparitor := c\<rparr>) a b s))
           = snd (snd (equal h assertion a b s))
       \<and> (fst (ToExpectation_Equal h \<lparr>te_invert = i, te_actual = a, te_others = []\<rparr> b [] s)
            = SuccessHandler) = ((IsNil h a = IsNil h b) \<noteq> i)
       \<and> ToExpectation_Equal (h\<lparr>EqualsComparitor := c\<rparr>)
            \<lparr>te_invert = i, te_actual = a, te_others = []\<rparr> b [] s
           = ToExpectation_Equal h \<lparr>te_invert = i, te_actual = a, te_others = []\<rparr> b [] s"
  using assms
  by (auto simp: equal_def ToExpectation_Equal_def Equal_assertion_def newToAssertion_def
      Equal_loop.simps Let_def)

theorem equal_nil_like_witness:
  "(IsNil spec_helpers VNil \<or> IsNil spec_helpers (VInt KInt 5))
   \<and> fst (equal spec_helpers (newToAssertion VNil spec_Equals ''to be equal to'')
            VNil (VInt KInt 5) []) = False
   \<and> fst (equal spec_helpers
            ((newToAssertion VNil spec_Equals ''to be equal to'')\<lparr>comparitor := spec_LessThan\<rparr>)
            VNil (VInt KInt 5) []) = False
   \<and> fst (ToExpectation_Equal spec_helpers
            \<lparr>te_invert = True, te_actual = VNil, te_others = []\<rparr> (VInt KInt 5) [] [])
       = SuccessHandler"
  using equal_nil_like
    [of spec_helpers VNil "VInt KInt 5" "newToAssertion VNil spec_Equals ''to be equal to''"
        "[]" spec_LessThan True]
  by (simp add: newToAssertion_def spec_helpers_sel)

text \<open>
  C5. When the number of secondary expected values differs from the number of secondary
  actual values, \<^verbatim>\<open>Equal\<close> returns the fail signal whatever the primary comparison
  decided, and the last failure it reports is the count mismatch, whose message is
  unlike that of any comparison. When the numbers agree, every pair (the primary one
  and each secondary one) is compared: the sink grows by the reports of all pairs in
  order, a pair reports exactly one failure when it does not pass and none when it
  does, and the result is the fail signal exactly when some pair does not pass.
\<close>

theorem Equal_multi_value:
  "(length others \<noteq> length (te_others e) \<longrightarrow>
      ToExpectation_Equal h e expected others s =
        (FailureHandler,
         s @ pair_report h e (te_actual e) expected
           @ [mismatch_message (length (te_others e) + 1) (length others + 1)]))
   \<and> (length others = length (te_others e) \<longrightarrow>
      ToExpectation_Equal h e expected others s =
        (if list_all (\<lambda>(a, b). pair_passes h e a b)
              (zip (te_actual e # te_others e) (expected # others))
         then SuccessHandler else FailureHandler,
         s @ concat (map (\<lambda>(a, b). pair_report h e a b)
                      (zip (te_actual e # te_others e) (expected # others)))))
   \<and> length (pair_report h e a b) = (if pair_passes h e a b then 0 else 1)
   \<and> list_all (\<lambda>m. has_prefix m ''expected '') (pair_report h e a b)
   \<and> has_prefix (mismatch_message n m) ''mismatch ''"
  using Equal_counts_differ[of others e h expected s]
    Equal_counts_match[of others e h expected s]
    equal_report_length[of h "Equal_assertion h e" a b]
    equal_report_prefix[of h "Equal_assertion h e" a b]
  by (simp add: pair_report_def pair_passes_def mismatch_message_def)

theorem Equal_multi_value_witness:
  "length [VBool False] = length (te_others (To (Expect spec_helpers (VInt KInt 1) [VBool True])))
   \<and> ToExpectation_Equal spec_helpers (To (Expect spec_helpers (VInt KInt 1) [VBool True]))
        (VInt KInt 1) [VBool False] []
      = (FailureHandler, [''expected true to be equal to false''])
   \<and> ToExpectation_Equal spec_helpers (To (Expect spec_helpers (VInt KInt 1) [VBool True]))
        (VInt KInt 1) [VBool True] []
      = (SuccessHandler, [])
   \<and> length ([] :: gvalue list)
        \<noteq> length (te_others (To (Expect spec_helpers (VInt KInt 1) [VBool True])))
   \<and> ToExpectation_Equal spec_helpers (To (Expect spec_helpers (VInt KInt 1) [VBool True]))
        (VInt KInt 1) [] []
      = (FailureHandler, [''mismatch number of values and expectations 2 != 1''])"
  using Equal_multi_value
    [of "[VBool False]" "To (Expect spec_helpers (VInt KInt 1) [VBool True])" spec_helpers
        "VInt KInt 1" "[]" VNil VNil 0 0]
    Equal_multi_value
    [of "[VBool True]" "To (Expect spec_helpers (VInt KInt 1) [VBool True])" spec_helpers
        "VInt KInt 1" "[]" VNil VNil 0 0]
    Equal_multi_value
    [of "[]" "To (Expect spec_helpers (VInt KInt 1) [VBool True])" spec_helpers
        "VInt KInt 1" "[]" VNil VNil 0 0]
  by (simp add: Expect_def pair_passes_def pair_report_def mismatch_message_def
      engine_defs spec_helper_defs)


subsection \<open>Containment\<close>

lemma contains_map:
  assumes "TypeOf key = Some kt" and "hashable key"
  shows "contains (VMap kt vt m) key =
           Inr (case m of None \<Rightarrow> False | Some ps \<Rightarrow> key \<in> fst ` set ps)"
  using assms
  by (auto simp: contains_def MapIndex_valid_def map_of_eq_None_iff split: option.splits)

lemma contains_other_kinds:
  assumes "Kind_of act \<noteq> KString" "Kind_of act \<noteq> KSlice" "Kind_of act \<noteq> KArray"
    "Kind_of act \<noteq> KMap"
  shows "contains act expected = Inr False"
  using assms by (cases act) (auto simp: contains_def)

lemma contains_string_other:
  assumes "Kind_of expected \<noteq> KString"
  shows "contains (VString a) expected = Inr False"
  using assms by (simp add: contains_def)

text \<open>
  C6, at the input where the code departs from it:
  \<^verbatim>\<open>Expect(map[string]int{"a": 1}).To.Contain(5)\<close>. The key 5 is an int and the key
  type of the map is string, so \<^verbatim>\<open>MapIndex\<close> panics: no outcome is returned and no
  failure is reported.
\<close>

theorem Contain_map_key_of_other_type_panics:
  "ToExpectation_Contain
     (To (Expect h (VMap (TBasic KString) (TBasic KInt) (Some [(VString ''a'', VInt KInt 1)])) []))
     (VInt KInt 5) s = Inl PanicMapIndex"
  by (simp add: Expect_def ToExpectation_Contain_def contains_def MapIndex_valid_def)

text \<open>
  The four calls the spec quotes: \<^verbatim>\<open>Expect([]int{1,2,3}).To.Contain(2)\<close> passes and
  \<^verbatim>\<open>Expect([]int{1,2,3}).To.Contain([]int{1,2})\<close> fails, reporting that the slice does
  not contain the other; \<^verbatim>\<open>Expect("hello world").To.Contain("world")\<close> and
  \<^verbatim>\<open>Expect("hello world").Not.To.Contain("xyz")\<close> pass.
\<close>

lemma Contain_examples:
  "ToExpectation_Contain
     (To (Expect h (VSlice (TBasic KInt) (Some [VInt KInt 1, VInt KInt 2, VInt KInt 3])) []))
     (VInt KInt 2) [] = Inr (SuccessHandler, [])
   \<and> ToExpectation_Contain
     (To (Expect h (VSlice (TBasic KInt) (Some [VInt KInt 1, VInt KInt 2, VInt KInt 3])) []))
     (VSlice (TBasic KInt) (Some [VInt KInt 1, VInt KInt 2])) []
       = Inr (FailureHandler, [''[1 2 3] does not contain [1 2]''])
   \<and> ToExpectation_Contain (To (Expect h (VString ''hello world'') []))
       (VString ''world'') [] = Inr (SuccessHandler, [])
   \<and> map_option (\<lambda>n. ToExpectation_Contain (To (embedded n)) (VString ''xyz'') [])
        (Not_ptr (Expect h (VString ''hello world'') []))
       = Some (Inr (SuccessHandler, []))"
  by (simp add: Expect_def ToExpectation_Contain_def contains_def Errorf_def
      fmt_int_def fmt_nat.simps)

lemma has_prefix_iff: "has_prefix s p = (\<exists>r. s = p @ r)"
  by (induction s p rule: has_prefix.induct) auto

text \<open>The search of \<^verbatim>\<open>strings.Contains\<close> and \<^verbatim>\<open>bytes.Contains\<close> finds a contiguous part.\<close>

lemma strings_Contains_iff: "strings_Contains a b = (\<exists>p q. a = p @ b @ q)"
proof (induction a)
  case Nil
  show ?case by (cases b) auto
next
  case (Cons c cs)
  have "(\<exists>p q. c # cs = p @ b @ q) = ((\<exists>q. c # cs = b @ q) \<or> (\<exists>p q. cs = p @ b @ q))"
    by (auto simp: Cons_eq_append_conv)
  then show ?case using Cons by (simp add: has_prefix_iff)
qed

lemma contains_sequence:
  assumes "Kind_of act = KSlice \<or> Kind_of act = KArray"
  shows "contains act expected =
     Inr (list_ex (\<lambda>x. DeepEqual x expected) (elements act)
          \<or> (case assert_bytes act of
                None \<Rightarrow> False
              | Some a \<Rightarrow> (case assert_bytes expected of
                            None \<Rightarrow> False
                          | Some b \<Rightarrow> strings_Contains a b)))"
  using assms by (cases act) (auto simp: contains_def split: option.splits)

lemma Contain_polarity:
  assumes "contains (te_actual e) expected = Inr c"
  shows "ToExpectation_Contain e expected s =
     Inr (if c = te_invert e then
            (FailureHandler,
             s @ [fmtv (te_actual e)
                  @ (if te_invert e then '' contains '' else '' does not contain '')
                  @ fmtv expected])
          else (SuccessHandler, s))"
  using assms by (auto simp: ToExpectation_Contain_def Errorf_def)

text \<open>
  C7, as the code has it. For a slice or an array, \<^verbatim>\<open>contains\<close> answers true exactly
  when some single element is deeply equal to the expected value, with one exception:
  when the actual and the expected value are both slices of bytes, it also answers true
  when the expected bytes are a contiguous part of the actual bytes. So when one of the
  two is not a slice of bytes a sub-sequence matches only if it is itself an element.
  For two strings \<^verbatim>\<open>contains\<close> answers true exactly when the expected string is a
  contiguous part of the actual one. \<^verbatim>\<open>Contain\<close> returns the fail signal and reports
  one failure exactly when that answer equals the invert flag, and the pass signal
  otherwise.
\<close>

theorem Contain_elements_and_substrings:
  "(Kind_of act = KSlice \<or> Kind_of act = KArray \<longrightarrow>
      contains act expected =
        Inr (list_ex (\<lambda>x. DeepEqual x expected) (elements act)
             \<or> (case assert_bytes act of
                   None \<Rightarrow> False
                 | Some bs \<Rightarrow> (case assert_bytes expected of
                                None \<Rightarrow> False
                              | Some cs \<Rightarrow> (\<exists>p q. bs = p @ cs @ q)))))
   \<and> ((Kind_of act = KSlice \<or> Kind_of act = KArray)
        \<and> (assert_bytes act = None \<or> assert_bytes expected = None) \<longrightarrow>
      contains act expected = Inr (list_ex (\<lambda>x. DeepEqual x expected) (elements act)))
   \<and> contains (VString a) (VString b) = Inr (\<exists>p q. a = p @ b @ q)
   \<and> (contains (te_actual e) ex = Inr c \<longrightarrow>
      ToExpectation_Contain e ex s =
        Inr (if c = te_invert e then
               (FailureHandler,
                s @ [fmtv (te_actual e)
                     @ (if te_invert e then '' contains '' else '' does not contain '')
                     @ fmtv ex])
             else (SuccessHandler, s)))"
  using contains_sequence[of act expected] Contain_polarity[of e ex c s]
  by (auto simp: strings_Contains_iff contains_def split: option.splits)

theorem Contain_elements_and_substrings_witness:
  "(Kind_of (VSlice (TBasic KInt) (Some [VInt KInt 1, VInt KInt 2, VInt KInt 3])) = KSlice
     \<or> Kind_of (VSlice (TBasic KInt) (Some [VInt KInt 1, VInt KInt 2, VInt KInt 3])) = KArray)
   \<and> (assert_bytes (VSlice (TBasic KInt) (Some [VInt KInt 1, VInt KInt 2, VInt KInt 3])) = None
     \<or> assert_bytes (VSlice (TBasic KInt) (Some [VInt KInt 1, VInt KInt 2])) = None)
   \<and> contains (VSlice (TBasic KInt) (Some [VInt KInt 1, VInt KInt 2, VInt KInt 3]))
        (VInt KInt 2) = Inr True
   \<and> contains (VSlice (TBasic KInt) (Some [VInt KInt 1, VInt KInt 2, VInt KInt 3]))
        (VSlice (TBasic KInt) (Some [VInt KInt 1, VInt KInt 2])) = Inr False
   \<and> contains (VString ''hello world'') (VString ''world'') = Inr True
   \<and> contains (te_actual (To (embedded (NotExpect spec_helpers (VString ''hello world'') []))))
        (VString ''xyz'') = Inr False
   \<and> ToExpectation_Contain
        (To (embedded (NotExpect spec_helpers (VString ''hello world'') [])))
        (VString ''xyz'') [] = Inr (SuccessHandler, [])"
  using Contain_elements_and_substrings
    [where act = "VSlice (TBasic KInt) (Some [VInt KInt 1, VInt KInt 2, VInt KInt 3])"
       and expected = "VSlice (TBasic KInt) (Some [VInt KInt 1, VInt KInt 2])"
       and a = "''hello world''" and b = "''world''"
       and e = "To (embedded (NotExpect spec_helpers (VString ''hello world'') []))"
       and ex = "VString ''xyz''" and c = False and s = "[]"]
    Contain_elements_and_substrings
    [where act = "VSlice (TBasic KInt) (Some [VInt KInt 1, VInt KInt 2, VInt KInt 3])"
       and expected = "VInt KInt 2"
       and a = "''hello world''" and b = "''world''"
       and e = "To (embedded (NotExpect spec_helpers (VString ''hello world'') []))"
       and ex = "VString ''xyz''" and c = False and s = "[]"]
  by (simp add: contains_def ToExpectation_Contain_def)

text \<open>
  The claim as it is written fails: that sequence containment matches only single
  elements does not hold of byte slices. No element of \<^verbatim>\<open>[]byte{1,2,3}\<close> is deeply
  equal to \<^verbatim>\<open>[]byte{1,2}\<close>, yet
  \<^verbatim>\<open>Expect([]byte{1,2,3}).To.Contain([]byte{1,2})\<close> passes.
\<close>

theorem Contain_byte_subsequence_counterexample:
  "DeepEqual (VUint KUint8 1) (VSlice (TBasic KUint8) (Some [VUint KUint8 1, VUint KUint8 2]))
     = False
   \<and> DeepEqual (VUint KUint8 2) (VSlice (TBasic KUint8) (Some [VUint KUint8 1, VUint KUint8 2]))
     = False
   \<and> DeepEqual (VUint KUint8 3) (VSlice (TBasic KUint8) (Some [VUint KUint8 1, VUint KUint8 2]))
     = False
   \<and> ToExpectation_Contain
       (To (Expect spec_helpers
              (VSlice (TBasic KUint8) (Some [VUint KUint8 1, VUint KUint8 2, VUint KUint8 3]))
              []))
       (VSlice (TBasic KUint8) (Some [VUint KUint8 1, VUint KUint8 2])) []
     = Inr (SuccessHandler, [])"
  by (simp add: Expect_def ToExpectation_Contain_def contains_def)

subsection \<open>The inverted expectation\<close>

text \<open>
  C10. The \<^verbatim>\<open>Not\<close> field of what \<^verbatim>\<open>Expect\<close> returns points to an inverted
  expectation with all five invert flags set and with a nil \<^verbatim>\<open>Not\<close> field of its
  own. So \<^verbatim>\<open>Expect(x).Not.Not\<close> is the nil pointer, and selecting any field \<open>sel\<close>
  through it, as \<^verbatim>\<open>Expect(x).Not.Not.To\<close> does, is a nil pointer dereference.
\<close>

theorem Not_of_Not_is_nil:
  "Not_ptr (Expect h a os) = Some (NotExpect h a os)
   \<and> than_invert (Greater (embedded (NotExpect h a os))) = True
   \<and> invert (GreaterOrEqual (embedded (NotExpect h a os))) = True
   \<and> than_invert (Less (embedded (NotExpect h a os))) = True
   \<and> invert (LessOrEqual (embedded (NotExpect h a os))) = True
   \<and> te_invert (To (embedded (NotExpect h a os))) = True
   \<and> Not_ptr (embedded (NotExpect h a os)) = None
   \<and> field_of Not_ptr (Not_ptr (Expect h a os)) = Inr None
   \<and> (case field_of Not_ptr (Not_ptr (Expect h a os)) of
        Inl p \<Rightarrow> Inl p
      | Inr not_not \<Rightarrow> field_of sel not_not) = Inl PanicNilDereference"
  by (simp add: Expect_def field_of_def)


section \<open>Properties of the suite runner\<close>

subsection \<open>The persisted summary\<close>

lemma find_3_passed_0_failed:
  "FindAllStringSubmatch 2 (''3 passed\<newline>0 failed'' @ replicate 111 (CHR 0x00))
     = [(''3'', ''0'')]"
  by code_simp

lemma Atoi_3_0: "Atoi ''3'' = Some 3" "Atoi ''0'' = Some 0"
  by code_simp+

text \<open>
  C3, at its own example. The file holds "3 passed", a newline, "0 failed"; the run has
  2 passed and 1 failed. The merged totals are 5 passed and 1 failed, and the file is
  rewritten with two formatted lines, but the number handed to the format of the failed
  line is the passed total, 5: whatever the colour rewriting, the file says 5 failed.
  With the colour codes left as they are, the text is shown in full; the same text is
  what \<^verbatim>\<open>finish\<close> leaves in the file after such a run.
\<close>

theorem summary_failed_line_prints_passed_total:
  "updatePersistedSummary cz (Some (Readable ''3 passed\<newline>0 failed'')) 2 1
     = Inr (Readable (Sprintf_d (cz ''\<newline>* @g%d passed\<newline>'') 5
                      @ Sprintf_d (cz ''* @r%d failed\<newline>'') 5))
   \<and> updatePersistedSummary id (Some (Readable ''3 passed\<newline>0 failed'')) 2 1
     = Inr (Readable ''\<newline>* @g5 passed\<newline>* @r5 failed\<newline>'')
   \<and> fst (finish summary_config ended_world) = None
   \<and> files (snd (finish summary_config ended_world)) ''summary.txt''
     = Some (Readable ''\<newline>* @g5 passed\<newline>* @r5 failed\<newline>'')"
  using find_3_passed_0_failed
  by (simp add: updatePersistedSummary_def Atoi_3_0 wrap64_def fmt_int_def fmt_nat.simps
      finish_def summary_config_def quiet_def ended_world_def fresh_world_def
      ended_result_def result_Passed_def print_lines_def)

subsection \<open>Skipped tests\<close>

lemma run_call_inv:
  assumes "current r = Some i" "i < length (results r)"
  shows "fst (run_call c r) = None"
    and "current (snd (run_call c r)) = Some i"
    and "length (results (snd (run_call c r))) = length (results r)"
    and "take i (results (snd (run_call c r))) = take i (results r)"
    and "drop (Suc i) (results (snd (run_call c r))) = drop (Suc i) (results r)"
    and "skip (results (snd (run_call c r)) ! i) = (skip (results r ! i) \<or> is_skip c)"
    and "method_name (results (snd (run_call c r)) ! i) = method_name (results r ! i)"
    and "typeName (results (snd (run_call c r)) ! i) = typeName (results r ! i)"
    and "start (results (snd (run_call c r)) ! i) = start (results r ! i)"
  using assms
  by (cases c; simp add: Runner_Errorf_def Runner_Skip_def Runner_ErrorMessage_def
      result_Skip_def result_ErrorMessage_def Let_def)+

text \<open>
  While a test is current, the calls of its body never panic, touch no other result,
  and leave the skip flag set once a skip call has set it.
\<close>

lemma run_calls_inv:
  assumes "current r = Some i" "i < length (results r)"
  shows "fst (run_calls cs r) = None
       \<and> current (snd (run_calls cs r)) = Some i
       \<and> length (results (snd (run_calls cs r))) = length (results r)
       \<and> take i (results (snd (run_calls cs r))) = take i (results r)
       \<and> drop (Suc i) (results (snd (run_calls cs r))) = drop (Suc i) (results r)
       \<and> skip (results (snd (run_calls cs r)) ! i) = (skip (results r ! i) \<or> list_ex is_skip cs)
       \<and> method_name (results (snd (run_calls cs r)) ! i) = method_name (results r ! i)
       \<and> typeName (results (snd (run_calls cs r)) ! i) = typeName (results r ! i)
       \<and> start (results (snd (run_calls cs r)) ! i) = start (results r ! i)"
  using assms
proof (induction cs arbitrary: r)
  case Nil
  then show ?case by simp
next
  case (Cons c cs)
  obtain r' where c: "run_call c r = (None, r')"
    using run_call_inv(1)[OF Cons.prems, of c] by (cases "run_call c r") auto
  have inv: "current r' = Some i" "i < length (results r')"
    using run_call_inv(2,3)[OF Cons.prems, of c] Cons.prems c by simp_all
  show ?case
    using Cons.IH[OF inv] run_call_inv(3-9)[OF Cons.prems, of c] c by auto
qed

lemma update_last: "length xs = Suc i \<Longrightarrow> xs[i := v] = take i xs @ [v]"
  by (induction xs arbitrary: i) (auto split: nat.splits)

text \<open>
  C8. Take any runner, start a test, let its body make any calls on the runner among
  which there is a skip call, and end the test. The body's calls do not panic,
  \<^verbatim>\<open>End\<close> answers that the test passed, and the result, whatever failures it holds,
  is reported and summarised by the skipped branch. The result is the only one added;
  it is counted among the passed results that \<^verbatim>\<open>finish\<close> counts, and the results
  \<^verbatim>\<open>finish\<close> lists as failed are those that were there before.
\<close>

theorem skip_takes_precedence:
  assumes "list_ex is_skip calls"
  shows "case Runner_Start name tn now r0 of (i, r1) \<Rightarrow>
           fst (run_calls calls r1) = None \<and>
           (case Runner_End now' (snd (run_calls calls r1)) of
              Inl p \<Rightarrow> False
            | Inr (passed, r3) \<Rightarrow>
                passed = True
              \<and> result_Passed (results r3 ! i) = True
              \<and> result_verdict (results r3 ! i) = VSkipped
              \<and> snd (result_Report t (results r3 ! i))
                  = [ReportLine VSkipped name now (if now' = 0 then t else now'),
                     SkipMessageLine (skipMessage (results r3 ! i))]
              \<and> result_Summary (results r3 ! i) = [SummaryLine VSkipped tn name]
              \<and> results r3 = results r0 @ [results r3 ! i]
              \<and> length (filter result_Passed (results r3))
                  = length (filter result_Passed (results r0)) + 1
              \<and> filter (\<lambda>r. result_Passed r = False) (results r3)
                  = filter (\<lambda>r. result_Passed r = False) (results r0))"
proof -
  define i where "i = length (results r0)"
  define new where "new = \<lparr>method_name = name, failures = [], typeName = tn, start = now,
    end_time = 0, skipMessage = [], skip = False\<rparr>"
  define r1 where "r1 = r0\<lparr>results := results r0 @ [new], current := Some i\<rparr>"
  have st: "Runner_Start name tn now r0 = (i, r1)"
    by (simp add: Runner_Start_def i_def r1_def new_def)
  have c1: "current r1 = Some i" and l1: "i < length (results r1)"
    by (simp_all add: r1_def i_def)
  define r2 where "r2 = snd (run_calls calls r1)"
  note inv = run_calls_inv[OF c1 l1, of calls, folded r2_def]
  have len2: "length (results r2) = Suc i" using inv by (simp add: r1_def i_def)
  have tk2: "take i (results r2) = results r0" using inv by (simp add: r1_def i_def)
  have sk2: "skip (results r2 ! i)" using inv assms by simp
  have nm2: "method_name (results r2 ! i) = name" "typeName (results r2 ! i) = tn"
    "start (results r2 ! i) = now"
    using inv by (simp_all add: r1_def i_def new_def)
  define res where "res = (results r2 ! i)\<lparr>end_time := now'\<rparr>"
  define r3 where "r3 = r2\<lparr>results := (results r2)[i := res], current := None\<rparr>"
  have e: "Runner_End now' r2 = Inr (True, r3)"
    using inv sk2 by (simp add: Runner_End_def res_def r3_def result_Passed_def Let_def)
  have r3: "results r3 = results r0 @ [res]"
    using update_last[OF len2, of res] tk2 by (simp add: r3_def)
  have at: "(results r0 @ [res]) ! i = res" by (simp add: i_def)
  have sk: "skip res" using sk2 by (simp add: res_def)
  have flds: "method_name res = name" "typeName res = tn" "start res = now" "end_time res = now'"
    using nm2 by (simp_all add: res_def)
  show ?thesis
    unfolding st prod.case r2_def[symmetric] e sum.case
    using inv sk flds
    by (simp add: at r3 result_Passed_def result_verdict_def result_Report_def
        result_Summary_def Let_def)
qed

theorem skip_takes_precedence_witness:
  "list_ex is_skip
     [CallErrorf ''expected 1 to be equal to 2'' ''calculator_test.go:20'',
      CallSkip ''not ready'',
      CallErrorf ''expected 3 to be equal to 4'' ''calculator_test.go:22'']
   \<and> (case Runner_Start ''Divides'' ''*CalculatorTests'' 1 \<lparr>results = [], current = None\<rparr> of
        (i, r1) \<Rightarrow>
          (case Runner_End 2
                  (snd (run_calls
                     [CallErrorf ''expected 1 to be equal to 2'' ''calculator_test.go:20'',
                      CallSkip ''not ready'',
                      CallErrorf ''expected 3 to be equal to 4'' ''calculator_test.go:22'']
                     r1)) of
             Inl p \<Rightarrow> False
           | Inr (passed, r3) \<Rightarrow>
               passed = True
             \<and> length (failures (results r3 ! i)) = 2
             \<and> result_verdict (results r3 ! i) = VSkipped
             \<and> filter (\<lambda>r. result_Passed r = False) (results r3) = []))"
  using skip_takes_precedence
    [where calls = "[CallErrorf ''expected 1 to be equal to 2'' ''calculator_test.go:20'',
          CallSkip ''not ready'',
          CallErrorf ''expected 3 to be equal to 4'' ''calculator_test.go:22'']"
       and name = "''Divides''" and tn = "''*CalculatorTests''" and now = 1
       and ?r0.0 = "\<lparr>results = [], current = None\<rparr>" and now' = 2 and t = 0]
  by (simp add: Runner_Start_def Runner_End_def Runner_Errorf_def Runner_Skip_def
      result_Skip_def result_Passed_def result_verdict_def)

text \<open>
  The same at the level of a whole run: a suite whose only test records a failure and
  then skips ends without a failure summary and without \<^verbatim>\<open>t.Fail()\<close>; a verbose
  run reports the test by the skipped branch.
\<close>

lemma Expectify_skipping_suite:
  "fst (Expectify quiet [] skipping_suite fresh_world) = None
   \<and> t_failed (snd (Expectify quiet [] skipping_suite fresh_world)) = False
   \<and> printed (snd (Expectify quiet [] skipping_suite fresh_world)) = []
   \<and> map result_verdict
        (results (runner (snd (Expectify quiet [] skipping_suite fresh_world)))) = [VSkipped]
   \<and> printed (snd (Expectify (quiet\<lparr>Verbose := True\<rparr>) [] skipping_suite fresh_world))
       = [AnnounceLine ''*CalculatorTests'', ReportLine VSkipped ''Divides'' 1 1,
          SkipMessageLine ''not ready'']"
  by code_simp

subsection \<open>Global hooks and the lifecycle hook\<close>

lemma find_append:
  "find P (xs @ ys) = (case find P xs of None \<Rightarrow> find P ys | Some x \<Rightarrow> Some x)"
  by (induction xs) auto

lemma run_hooks_append:
  "run_hooks (hs @ [f]) w =
     (case run_hooks hs w of (Some p, w') \<Rightarrow> (Some p, w') | (None, w') \<Rightarrow> f w')"
  by (induction hs arbitrary: w) (auto split: prod.splits option.splits)

text \<open>
  C9, as the code has it. A method named Each with one function parameter is the
  lifecycle hook. For a selected test (exported, without parameters, let through by the
  pattern) the runner starts the result, runs the registered global hooks in the order
  of their registration, and only then invokes Each, with a thunk made of the
  test method followed by the completion and report logic. The hooks run before Each is
  invoked and are no part of the thunk; a hook registered later runs later.
\<close>

theorem hooks_run_before_Each:
  assumes "m_exported m" and "m_body m = NoArg b"
    and "case pattern cfg of None \<Rightarrow> True | Some matches \<Rightarrow> matches (m_name m) \<or> matches tn"
  shows "each_hook \<lparr>s_typeName = tn,
                    s_methods = ms1 @ [\<lparr>m_name = ''Each'', m_exported = True,
                                        m_body = OneArg e\<rparr>] @ ms2\<rparr>
           = (case find (\<lambda>m. m_name m = ''Each'') ms1 of
                None \<Rightarrow> Some (OneArg e)
              | Some m' \<Rightarrow> (if NumIn (m_body m') \<noteq> 2 then None else Some (m_body m')))
       \<and> Expectify_loop cfg beforeEach tn (Some (OneArg e)) (m # ms) (name, res, w) =
          (case Runner_Start (m_name m) tn (clock w) (runner w) of
             (i, r') \<Rightarrow>
               (case run_hooks beforeEach (w\<lparr>os_Stdout := True, runner := r'\<rparr>) of
                  (Some p, w3) \<Rightarrow> (Some p, m_name m, Some i, w3)
                | (None, w3) \<Rightarrow>
                    (case e (test_thunk cfg tn i (NoArg b)) w3 of
                       (Some p, w4) \<Rightarrow> (Some p, m_name m, Some i, w4)
                     | (None, w4) \<Rightarrow>
                         Expectify_loop cfg beforeEach tn (Some (OneArg e)) ms
                           (m_name m, Some i, w4\<lparr>os_Stdout := showStdout cfg\<rparr>))))
       \<and> run_hooks (BeforeEach f beforeEach) w =
          (case run_hooks beforeEach w of
             (Some p, w') \<Rightarrow> (Some p, w')
           | (None, w') \<Rightarrow> f w')
       \<and> test_thunk cfg tn i (NoArg b) w =
          (case b w of
             (Some p, w1) \<Rightarrow> (Some p, w1)
           | (None, w1) \<Rightarrow>
               (case Runner_End (clock w1) (runner w1) of
                  Inl p \<Rightarrow> (Some p, w1)
                | Inr (passed, r') \<Rightarrow>
                    (if passed = False \<or> Verbose cfg then
                       (None, Report_at i
                          (if announced w1 = False then
                             (print_lines [AnnounceLine tn] (w1\<lparr>runner := r'\<rparr>))
                               \<lparr>announced := True\<rparr>
                           else w1\<lparr>runner := r'\<rparr>))
                     else (None, w1\<lparr>runner := r'\<rparr>))))"
  using assms
  by (auto simp: each_hook_def find_append run_hooks_append BeforeEach_def test_thunk_def
      Let_def split: option.splits prod.splits sum.splits)

theorem hooks_run_before_Each_witness:
  "m_exported (hd (s_methods (logging_suite logging_Each)))
   \<and> m_body (hd (s_methods (logging_suite logging_Each))) = NoArg (log_action ''test method'')
   \<and> (case pattern quiet of
        None \<Rightarrow> True
      | Some matches \<Rightarrow> matches (m_name (hd (s_methods (logging_suite logging_Each))))
                        \<or> matches ''*CalculatorTests'')
   \<and> user (snd (snd (snd
        (Expectify_loop quiet two_hooks ''*CalculatorTests'' (Some (OneArg logging_Each))
           [hd (s_methods (logging_suite logging_Each))] ([], None, fresh_world)))))
      = [''hook 1'', ''hook 2'', ''Each begins'', ''test method'', ''Each ends'']"
  using hooks_run_before_Each
    [where m = "hd (s_methods (logging_suite logging_Each))"
       and b = "log_action ''test method''" and cfg = quiet and tn = "''*CalculatorTests''"
       and ?ms1.0 = "[]" and e = logging_Each and ?ms2.0 = "[]" and beforeEach = two_hooks
       and ms = "[]" and name = "[]" and res = None and w = fresh_world
       and f = "log_action ''hook 3''" and i = 0]
  by (simp add: logging_suite_def two_hooks_def BeforeEach_def quiet_def fresh_world_def
      log_action_def logging_Each_def test_thunk_def Runner_Start_def Runner_End_def
      result_Passed_def Let_def)

text \<open>
  The claim as it is written fails. With two global hooks and an Each that logs before
  and after invoking its thunk, both hooks have run before Each begins, not inside the
  thunk; and with an Each that never invokes its thunk the hooks still run, while the
  test method does not.
\<close>

theorem hooks_inside_thunk_counterexample:
  "user (snd (Expectify quiet two_hooks (logging_suite logging_Each) fresh_world))
     = [''hook 1'', ''hook 2'', ''Each begins'', ''test method'', ''Each ends'']
   \<and> user (snd (Expectify quiet two_hooks (logging_suite idle_Each) fresh_world))
     = [''hook 1'', ''hook 2'', ''Each does nothing'']"
  by (simp add: Expectify_def each_hook_def logging_suite_def two_hooks_def BeforeEach_def
      quiet_def fresh_world_def log_action_def logging_Each_def idle_Each_def test_thunk_def
      Runner_Start_def Runner_End_def result_Passed_def finish_def Let_def)

end
